theory Spec2Isabelle
  imports Complex_Main "HOL-Library.Word"
begin

unbundle bit_operations_syntax

section \<open>Strings and numbers as the client code uses them\<close>

text \<open>
  \<^verbatim>\<open>String.prototype.includes\<close>: does the pattern occur somewhere in the string.
\<close>

fun starts_with :: "string \<Rightarrow> string \<Rightarrow> bool" where
  "starts_with s [] = True"
| "starts_with [] (p # ps) = False"
| "starts_with (c # cs) (p # ps) = (c = p \<and> starts_with cs ps)"

fun includes_str :: "string \<Rightarrow> string \<Rightarrow> bool" where
  "includes_str [] pat = (pat = [])"
| "includes_str (c # cs) pat = (starts_with (c # cs) pat \<or> includes_str cs pat)"

text \<open>Decimal printing of an integer-valued number (template literals, \<^verbatim>\<open>toString()\<close>).\<close>

definition digit_char :: "nat \<Rightarrow> char" where
  "digit_char d = ''0123456789'' ! d"

fun string_of_nat :: "nat \<Rightarrow> string" where
  "string_of_nat n =
     (if n < 10 then [digit_char n] else string_of_nat (n div 10) @ [digit_char (n mod 10)])"

declare string_of_nat.simps [simp del]

definition string_of_int :: "int \<Rightarrow> string" where
  "string_of_int i = (if i < 0 then CHR ''-'' # string_of_nat (nat (- i)) else string_of_nat (nat i))"

text \<open>
  \<^verbatim>\<open>parseInt(s, 10)\<close>: leading white space is skipped, one sign is accepted, the longest
  run of decimal digits is read; with no digit the result is NaN, modelled as \<open>None\<close>.
\<close>

definition is_digit :: "char \<Rightarrow> bool" where
  "is_digit c = (48 \<le> (of_char c :: nat) \<and> (of_char c :: nat) \<le> 57)"

definition is_white_space :: "char \<Rightarrow> bool" where
  "is_white_space c = (of_char c \<in> {9, 10, 11, 12, 13, 32 :: nat})"

definition digits_value :: "string \<Rightarrow> nat" where
  "digits_value ds = foldl (\<lambda>a c. 10 * a + (of_char c - 48)) 0 ds"

definition parseInt :: "string \<Rightarrow> int option" where
  "parseInt s =
     (let s1 = dropWhile is_white_space s;
          neg = (case s1 of c # r \<Rightarrow> c = CHR ''-'' | [] \<Rightarrow> False);
          s2 = (case s1 of c # r \<Rightarrow> if c = CHR ''-'' \<or> c = CHR ''+'' then r else s1 | [] \<Rightarrow> s1);
          ds = takeWhile is_digit s2
      in if ds = [] then None
         else Some (if neg then - int (digits_value ds) else int (digits_value ds)))"

text \<open>
  A value of type \<^verbatim>\<open>unknown\<close> (chunk metadata entries) and its truthiness, which is what
  \<^verbatim>\<open>||\<close> and \<^verbatim>\<open>if (x)\<close> test.
\<close>

datatype js_value = JUndefined | JNull | JBoolean bool | JNumber real | JString string | JObject

fun truthy :: "js_value \<Rightarrow> bool" where
  "truthy JUndefined = False"
| "truthy JNull = False"
| "truthy (JBoolean b) = b"
| "truthy (JNumber x) = (x \<noteq> 0)"
| "truthy (JString s) = (s \<noteq> [])"
| "truthy JObject = True"

text \<open>\<^verbatim>\<open>a || b\<close> on values.\<close>

definition js_or :: "js_value \<Rightarrow> js_value \<Rightarrow> js_value" where
  "js_or a b = (if truthy a then a else b)"

section \<open>Types of the HTTP boundary (api.types.ts, dataService.ts, authService.ts)\<close>

record RetrievedChunk =
  chunk_id :: int
  asset_id :: int
  chunk_content :: string
  similarity_score :: real
  metadata :: "(string \<rightharpoonup> js_value) option"

record RagQueryRequest =
  project_id :: "int option"
  query :: string

record RagQueryResponse =
  retrieved_chunks :: "RetrievedChunk list"
  response :: string

record LoginRequest =
  username :: string
  password :: string

record LoginResponse =
  access_token :: string
  token_type :: string
  user_id :: int

record UploadResponse =
  upload_asset_id :: int
  filename :: string

record ProcessResponse =
  task_id :: string
  process_status :: string

record File =
  name :: string

datatype http_method = GET | POST | DELETE

datatype request_body =
    NoBody
  | RagQueryBody RagQueryRequest
  | LoginBody LoginRequest
  | FormDataBody File

text \<open>
  The request configuration of axios, with the counter \<^verbatim>\<open>_retryCount\<close> the response
  interceptor attaches to it (\<open>None\<close> while it is undefined).
\<close>

record request_config =
  http_method :: http_method
  url :: string
  body :: request_body
  params :: "(string \<times> string) list"
  headers :: "string \<rightharpoonup> string"
  retryCount :: "nat option"

text \<open>
  The body of a response. \<open>ErrorData\<close> is the structured error of the backend with its
  \<^verbatim>\<open>detail\<close> field; \<open>OtherData\<close> stands for any body of another shape.
\<close>

datatype response_data =
    RagQueryData RagQueryResponse
  | LoginData LoginResponse
  | CsrfData string
  | UploadData UploadResponse
  | ProcessData ProcessResponse
  | ErrorData string
  | OtherData

record http_response =
  status :: nat
  data :: response_data

text \<open>
  What the code reads of an instance of \<^verbatim>\<open>Error\<close>: its message and, for the errors of
  axios, the response and the configuration of the request.
\<close>

record Error_obj =
  message :: string
  error_response :: "http_response option"
  config :: "request_config option"

text \<open>A thrown (or rejected) value is \<^verbatim>\<open>unknown\<close>: the cases errorHandlers.ts tells apart.\<close>

datatype thrown =
    ErrorInstance Error_obj
  | DetailObject "string option"
  | StringValue string
  | OtherValue

datatype 'a completion = Normal 'a | Throws thrown

section \<open>Types of the conversation (chat.types.ts)\<close>

datatype Role = user | assistant | system

datatype Status = sending | sent | error

record ChatSource =
  title :: js_value
  source_url :: js_value
  relevance_score :: real

record ChatMessage =
  msg_id :: string
  role :: Role
  content :: string
  timestamp :: nat
  msg_status :: "Status option"
  sources :: "ChatSource list option"
  confidence_score :: "real option"

record ChatState =
  messages :: "ChatMessage list"
  isLoading :: bool
  error_slot :: "string option"
  sessionId :: string

datatype ChatAction =
    ADD_MESSAGE ChatMessage
  | SET_LOADING bool
  | SET_ERROR "string option"
  | CLEAR_ERROR
  | CLEAR_MESSAGES
  | SET_SESSION_ID string

section \<open>The browser and the backend as an explicit world\<close>

text \<open>
  Web storage: the stored items, and for each of its three methods whether a call throws
  (storage disabled, quota exceeded, access denied).
\<close>

record Storage =
  items :: "string \<rightharpoonup> string"
  getItem_throws :: bool
  setItem_throws :: bool
  removeItem_throws :: bool

text \<open>
  One result of \<^verbatim>\<open>Math.random()\<close>, as far as the code looks at it: the integer
  \<^verbatim>\<open>(r * 16) | 0\<close>, a 4-bit value, and the decimal text of the number.
\<close>

record random_number =
  times16 :: "4 word"
  as_text :: string

datatype console_entry = ConsoleError string string | ConsoleWarn string thrown

text \<open>What the network answers to a dispatched request.\<close>

datatype adapter_outcome =
    Resolved http_response
  | Rejected string "http_response option" bool

text \<open>
  The world: both storages, the successive results of \<^verbatim>\<open>Math.random()\<close> and
  \<^verbatim>\<open>Date.now()\<close> with the number of calls made so far, the answers of the network to
  the successive requests (\<open>backend w k\<close> answers the request dispatched after \<open>k\<close>
  others), the requests dispatched so far, oldest first, the delays waited with
  \<^verbatim>\<open>setTimeout\<close>, the console, the build-time variable \<^verbatim>\<open>VITE_PROJECT_ID\<close>, and the
  state held by the chat reducer.
\<close>

record world =
  sessionStorage :: Storage
  localStorage :: Storage
  random_results :: "nat \<Rightarrow> random_number"
  random_calls :: nat
  clock_results :: "nat \<Rightarrow> nat"
  clock_calls :: nat
  backend :: "nat \<Rightarrow> adapter_outcome"
  network :: "request_config list"
  timers :: "nat list"
  console :: "console_entry list"
  VITE_PROJECT_ID :: "string option"
  chat :: ChatState

text \<open>
  A computation runs in a world, changes it, and completes normally with a value or
  abruptly with a thrown value.
\<close>

type_synonym 'a js = "world \<Rightarrow> 'a completion \<times> world"

definition return :: "'a \<Rightarrow> 'a js" where
  "return x = (\<lambda>w. (Normal x, w))"

definition throw :: "thrown \<Rightarrow> 'a js" where
  "throw e = (\<lambda>w. (Throws e, w))"

definition bind :: "'a js \<Rightarrow> ('a \<Rightarrow> 'b js) \<Rightarrow> 'b js" where
  "bind m f = (\<lambda>w. case m w of (Normal x, w') \<Rightarrow> f x w' | (Throws e, w') \<Rightarrow> (Throws e, w'))"

definition try_catch :: "'a js \<Rightarrow> (thrown \<Rightarrow> 'a js) \<Rightarrow> 'a js" where
  "try_catch m h = (\<lambda>w. case m w of (Normal x, w') \<Rightarrow> (Normal x, w') | (Throws e, w') \<Rightarrow> h e w')"

definition try_finally :: "'a js \<Rightarrow> unit js \<Rightarrow> 'a js" where
  "try_finally m fin =
     (\<lambda>w. case m w of (c, w') \<Rightarrow>
        (case fin w' of (Normal u, w'') \<Rightarrow> (c, w'') | (Throws e, w'') \<Rightarrow> (Throws e, w'')))"

subsection \<open>Web storage, random numbers, the clock\<close>

definition Storage_getItem :: "Storage \<Rightarrow> string \<Rightarrow> string option completion" where
  "Storage_getItem s k =
     (if getItem_throws s
      then Throws (ErrorInstance \<lparr>message = ''Access denied'', error_response = None, config = None\<rparr>)
      else Normal (items s k))"

definition Storage_setItem :: "Storage \<Rightarrow> string \<Rightarrow> string \<Rightarrow> Storage completion" where
  "Storage_setItem s k v =
     (if setItem_throws s
      then Throws (ErrorInstance \<lparr>message = ''Access denied'', error_response = None, config = None\<rparr>)
      else Normal (s\<lparr>items := (items s)(k \<mapsto> v)\<rparr>))"

definition Storage_removeItem :: "Storage \<Rightarrow> string \<Rightarrow> Storage completion" where
  "Storage_removeItem s k =
     (if removeItem_throws s
      then Throws (ErrorInstance \<lparr>message = ''Access denied'', error_response = None, config = None\<rparr>)
      else Normal (s\<lparr>items := (items s)(k := None)\<rparr>))"

definition sessionStorage_getItem :: "string \<Rightarrow> string option js" where
  "sessionStorage_getItem k = (\<lambda>w. (Storage_getItem (sessionStorage w) k, w))"

definition sessionStorage_setItem :: "string \<Rightarrow> string \<Rightarrow> unit js" where
  "sessionStorage_setItem k v =
     (\<lambda>w. case Storage_setItem (sessionStorage w) k v of
             Normal s \<Rightarrow> (Normal (), w\<lparr>sessionStorage := s\<rparr>)
           | Throws e \<Rightarrow> (Throws e, w))"

definition sessionStorage_removeItem :: "string \<Rightarrow> unit js" where
  "sessionStorage_removeItem k =
     (\<lambda>w. case Storage_removeItem (sessionStorage w) k of
             Normal s \<Rightarrow> (Normal (), w\<lparr>sessionStorage := s\<rparr>)
           | Throws e \<Rightarrow> (Throws e, w))"

definition localStorage_getItem :: "string \<Rightarrow> string option js" where
  "localStorage_getItem k = (\<lambda>w. (Storage_getItem (localStorage w) k, w))"

definition localStorage_setItem :: "string \<Rightarrow> string \<Rightarrow> unit js" where
  "localStorage_setItem k v =
     (\<lambda>w. case Storage_setItem (localStorage w) k v of
             Normal s \<Rightarrow> (Normal (), w\<lparr>localStorage := s\<rparr>)
           | Throws e \<Rightarrow> (Throws e, w))"

definition localStorage_removeItem :: "string \<Rightarrow> unit js" where
  "localStorage_removeItem k =
     (\<lambda>w. case Storage_removeItem (localStorage w) k of
             Normal s \<Rightarrow> (Normal (), w\<lparr>localStorage := s\<rparr>)
           | Throws e \<Rightarrow> (Throws e, w))"

definition Math_random :: "world \<Rightarrow> random_number \<times> world" where
  "Math_random w = (random_results w (random_calls w), w\<lparr>random_calls := random_calls w + 1\<rparr>)"

definition Date_now :: "world \<Rightarrow> nat \<times> world" where
  "Date_now w = (clock_results w (clock_calls w), w\<lparr>clock_calls := clock_calls w + 1\<rparr>)"

section \<open>CredentialStore: sessionUtils.ts\<close>

definition SESSION_ID_KEY :: string where
  "SESSION_ID_KEY = ''supportrag_session_id''"

text \<open>\<^verbatim>\<open>v.toString(16)\<close> for a value below 16.\<close>

definition hex_digit :: "4 word \<Rightarrow> char" where
  "hex_digit v = ''0123456789abcdef'' ! unat v"

text \<open>The callback of \<^verbatim>\<open>replace\<close> in generateUUID, given the matched character and \<open>r\<close>.\<close>

definition uuid_char :: "char \<Rightarrow> 4 word \<Rightarrow> char" where
  "uuid_char c r = (let v = (if c = CHR ''x'' then r else (r AND 3) OR 8) in hex_digit v)"

text \<open>
  \<^verbatim>\<open>template.replace(/[xy]/g, f)\<close>: every \<open>x\<close> and \<open>y\<close>, from left to right, is replaced by
  the result of the callback, which draws one random number.
\<close>

fun replace_xy :: "string \<Rightarrow> world \<Rightarrow> string \<times> world" where
  "replace_xy [] w = ([], w)"
| "replace_xy (c # cs) w =
     (if c = CHR ''x'' \<or> c = CHR ''y''
      then (case Math_random w of (r, w1) \<Rightarrow>
              (case replace_xy cs w1 of (rest, w2) \<Rightarrow> (uuid_char c (times16 r) # rest, w2)))
      else (case replace_xy cs w of (rest, w2) \<Rightarrow> (c # rest, w2)))"

definition generateUUID :: "world \<Rightarrow> string \<times> world" where
  "generateUUID w = replace_xy ''xxxxxxxx-xxxx-4xxx-yxxx-xxxxxxxxxxxx'' w"

definition lift :: "(world \<Rightarrow> 'a \<times> world) \<Rightarrow> 'a js" where
  "lift f = (\<lambda>w. case f w of (x, w') \<Rightarrow> (Normal x, w'))"

definition getSessionId :: "string js" where
  "getSessionId =
     try_catch
       (bind (sessionStorage_getItem SESSION_ID_KEY) (\<lambda>existing.
          if existing \<noteq> None \<and> existing \<noteq> Some []
          then return (the existing)
          else bind (lift generateUUID) (\<lambda>newId.
               bind (sessionStorage_setItem SESSION_ID_KEY newId) (\<lambda>_.
               return newId))))
       (\<lambda>_. lift generateUUID)"

definition clearSessionId :: "unit js" where
  "clearSessionId =
     try_catch (sessionStorage_removeItem SESSION_ID_KEY) (\<lambda>_. return ())"


section \<open>CredentialStore: tokenUtils.ts\<close>

definition TOKEN_KEY :: string where
  "TOKEN_KEY = ''supportrag_auth_token''"

definition USER_ID_KEY :: string where
  "USER_ID_KEY = ''supportrag_user_id''"

definition CSRF_KEY :: string where
  "CSRF_KEY = ''supportrag_csrf_token''"

definition getAuthToken :: "string option js" where
  "getAuthToken = try_catch (localStorage_getItem TOKEN_KEY) (\<lambda>_. return None)"

definition setAuthToken :: "string \<Rightarrow> unit js" where
  "setAuthToken token = try_catch (localStorage_setItem TOKEN_KEY token) (\<lambda>_. return ())"

definition removeAuthToken :: "unit js" where
  "removeAuthToken = try_catch (localStorage_removeItem TOKEN_KEY) (\<lambda>_. return ())"

text \<open>The result of getUserId is \<^verbatim>\<open>number | null\<close>; the number may be NaN (inner \<open>None\<close>).\<close>

definition getUserId :: "int option option js" where
  "getUserId =
     try_catch
       (bind (localStorage_getItem USER_ID_KEY) (\<lambda>i.
          return (if i \<noteq> None \<and> i \<noteq> Some [] then Some (parseInt (the i)) else None)))
       (\<lambda>_. return None)"

definition setUserId :: "int \<Rightarrow> unit js" where
  "setUserId i = try_catch (localStorage_setItem USER_ID_KEY (string_of_int i)) (\<lambda>_. return ())"

definition removeUserId :: "unit js" where
  "removeUserId = try_catch (localStorage_removeItem USER_ID_KEY) (\<lambda>_. return ())"

definition clearAuth :: "unit js" where
  "clearAuth = bind removeAuthToken (\<lambda>_. removeUserId)"

definition getCsrfToken :: "string option js" where
  "getCsrfToken = try_catch (sessionStorage_getItem CSRF_KEY) (\<lambda>_. return None)"

definition setCsrfToken :: "string \<Rightarrow> unit js" where
  "setCsrfToken token = try_catch (sessionStorage_setItem CSRF_KEY token) (\<lambda>_. return ())"

definition removeCsrfToken :: "unit js" where
  "removeCsrfToken = try_catch (sessionStorage_removeItem CSRF_KEY) (\<lambda>_. return ())"

section \<open>errorHandlers.ts\<close>

definition getErrorMessage :: "thrown \<Rightarrow> string" where
  "getErrorMessage err =
     (case err of
        ErrorInstance e \<Rightarrow> message e
      | DetailObject d \<Rightarrow>
          (case d of
             Some s \<Rightarrow> if s \<noteq> [] then s else ''An unknown error occurred''
           | None \<Rightarrow> ''An unknown error occurred'')
      | StringValue s \<Rightarrow> s
      | OtherValue \<Rightarrow> ''An unknown error occurred. Please try again.'')"

definition isNetworkError :: "thrown \<Rightarrow> bool" where
  "isNetworkError err =
     (case err of
        ErrorInstance e \<Rightarrow>
          includes_str (message e) ''Network'' \<or> includes_str (message e) ''fetch''
          \<or> includes_str (message e) ''ERR_NETWORK''
      | _ \<Rightarrow> False)"

definition isTimeoutError :: "thrown \<Rightarrow> bool" where
  "isTimeoutError err =
     (case err of
        ErrorInstance e \<Rightarrow> includes_str (message e) ''timeout'' \<or> includes_str (message e) ''TIMEOUT''
      | _ \<Rightarrow> False)"

definition getRetryableError :: "thrown \<Rightarrow> bool" where
  "getRetryableError err = (isNetworkError err \<or> isTimeoutError err)"

definition formatApiError :: "thrown \<Rightarrow> string" where
  "formatApiError err =
     (if isNetworkError err
      then ''Unable to reach the support system. Please check your connection and try again.''
      else if isTimeoutError err then ''Request timed out. Please try again.''
      else getErrorMessage err)"

section \<open>RequestGateway: api.ts\<close>

definition MAX_RETRIES :: nat where
  "MAX_RETRIES = 2"

definition RETRY_DELAY :: nat where
  "RETRY_DELAY = 1000"

text \<open>The request interceptor: the three identity headers, each only when its value is truthy.\<close>

definition request_interceptor :: "request_config \<Rightarrow> request_config js" where
  "request_interceptor config0 =
     bind getSessionId (\<lambda>sid.
       let config1 = (if sid \<noteq> [] then config0\<lparr>headers := (headers config0)(''X-Session-ID'' \<mapsto> sid)\<rparr>
                      else config0)
       in bind getAuthToken (\<lambda>token.
         let config2 = (if token \<noteq> None \<and> token \<noteq> Some []
                        then config1\<lparr>headers := (headers config1)(''Authorization'' \<mapsto> ''Bearer '' @ the token)\<rparr>
                        else config1)
         in bind getCsrfToken (\<lambda>csrfToken.
           let config3 = (if csrfToken \<noteq> None \<and> csrfToken \<noteq> Some []
                          then config2\<lparr>headers := (headers config2)(''X-CSRF-Token'' \<mapsto> the csrfToken)\<rparr>
                          else config2)
           in return config3)))"

text \<open>
  Dispatching a request: it is recorded, the network answers, and a rejection becomes an
  error that carries the configuration of the request when the network says so.
\<close>

definition dispatch_request :: "request_config \<Rightarrow> http_response js" where
  "dispatch_request c =
     (\<lambda>w. let w' = w\<lparr>network := network w @ [c]\<rparr>
          in case backend w (length (network w)) of
               Resolved r \<Rightarrow> (Normal r, w')
             | Rejected msg resp with_config \<Rightarrow>
                 (Throws (ErrorInstance \<lparr>message = msg, error_response = resp,
                    config = (if with_config then Some c else None)\<rparr>), w'))"

definition setTimeout :: "nat \<Rightarrow> unit js" where
  "setTimeout ms = (\<lambda>w. (Normal (), w\<lparr>timers := timers w @ [ms]\<rparr>))"

definition console_error :: "string \<Rightarrow> string \<Rightarrow> unit js" where
  "console_error label text = (\<lambda>w. (Normal (), w\<lparr>console := console w @ [ConsoleError label text]\<rparr>))"

definition console_warn :: "string \<Rightarrow> thrown \<Rightarrow> unit js" where
  "console_warn label err = (\<lambda>w. (Normal (), w\<lparr>console := console w @ [ConsoleWarn label err]\<rparr>))"

text \<open>\<^verbatim>\<open>originalRequest._retryCount || 0\<close>.\<close>

definition retry_count :: "request_config \<Rightarrow> nat" where
  "retry_count c = (case retryCount c of None \<Rightarrow> 0 | Some n \<Rightarrow> n)"

text \<open>\<^verbatim>\<open>!error.response || error.response.status >= 500\<close>.\<close>

definition should_log :: "Error_obj \<Rightarrow> bool" where
  "should_log e = (case error_response e of None \<Rightarrow> True | Some r \<Rightarrow> 500 \<le> status r)"

text \<open>
  A call of the client: the request interceptor, the dispatch, and on a rejection the
  response interceptor, which either calls the client again with the same request and
  the counter incremented, or rejects with the error. Two facts of axios are built in:
  \<^verbatim>\<open>error.config\<close> is the configuration of the request that failed, and a call of the
  client with that configuration keeps its field \<^verbatim>\<open>_retryCount\<close>. The error rejected in
  the end holds the configuration with the counter as the interceptor last wrote it.
\<close>

function apiClient :: "request_config \<Rightarrow> http_response js" where
  "apiClient c w =
     (case request_interceptor c w of
        (Throws err, w0) \<Rightarrow> (Throws err, w0)
      | (Normal c1, w0) \<Rightarrow>
          (case dispatch_request c1 w0 of
             (Normal resp, w1) \<Rightarrow> (Normal resp, w1)
           | (Throws err, w1) \<Rightarrow>
               (case err of
                  ErrorInstance e \<Rightarrow>
                    (case config e of
                       None \<Rightarrow> (Throws err, w1)
                     | Some originalRequest \<Rightarrow>
                         if getRetryableError err \<and> retry_count originalRequest < MAX_RETRIES
                         then apiClient
                                (originalRequest\<lparr>retryCount := Some (retry_count originalRequest + 1)\<rparr>)
                                (snd (setTimeout RETRY_DELAY w1))
                         else (Throws (ErrorInstance
                                 (e\<lparr>config := Some (originalRequest\<lparr>retryCount := Some (retry_count originalRequest)\<rparr>)\<rparr>)),
                               if should_log e
                               then snd (console_error ''API Error:'' (formatApiError err) w1)
                               else w1))
                | _ \<Rightarrow> (Throws err, w1))))"
  by pat_completeness auto
termination
proof (relation "measure (\<lambda>(c, w). MAX_RETRIES - retry_count c)")
  show "wf (measure (\<lambda>(c, w). MAX_RETRIES - retry_count c))" by simp
next
  fix c w x c1 w0 y err w1 e originalRequest
  assume ri: "(x, w0) = request_interceptor c w" "x = Normal c1"
    and dr: "(y, w1) = dispatch_request c1 w0" "y = Throws err" "err = ErrorInstance e"
    and cf: "config e = Some originalRequest"
    and go: "getRetryableError err \<and> retry_count originalRequest < MAX_RETRIES"
  have "dispatch_request c1 w0 = (Throws (ErrorInstance e), w1)"
    using dr by simp
  then have "config e = Some c1 \<or> config e = None"
    unfolding dispatch_request_def by (auto simp: Let_def split: adapter_outcome.splits if_splits)
  then have "originalRequest = c1" using cf by simp
  moreover have "request_interceptor c w = (Normal c1, w0)"
    using ri by simp
  then have "retryCount c1 = retryCount c"
    unfolding request_interceptor_def bind_def return_def
    by (auto simp: Let_def split: prod.splits completion.splits if_splits)
  ultimately show "((originalRequest\<lparr>retryCount := Some (retry_count originalRequest + 1)\<rparr>,
               snd (setTimeout RETRY_DELAY w1)), (c, w))
             \<in> measure (\<lambda>(c, w). MAX_RETRIES - retry_count c)"
    using go by (auto simp: retry_count_def split: option.splits)
qed

declare apiClient.simps [simp del]

definition default_headers :: "string \<rightharpoonup> string" where
  "default_headers = [''Content-Type'' \<mapsto> ''application/json'']"

definition apiClient_get :: "string \<Rightarrow> http_response js" where
  "apiClient_get u =
     apiClient \<lparr>http_method = GET, url = u, body = NoBody, params = [], headers = default_headers,
       retryCount = None\<rparr>"

definition apiClient_post ::
    "string \<Rightarrow> request_body \<Rightarrow> (string \<times> string) list \<Rightarrow> (string \<rightharpoonup> string) \<Rightarrow> http_response js" where
  "apiClient_post u b ps hs =
     apiClient \<lparr>http_method = POST, url = u, body = b, params = ps, headers = default_headers ++ hs,
       retryCount = None\<rparr>"

text \<open>
  The rejections axios itself produces, with the messages of its sources: no connection
  (\<open>Network Error\<close>), the deadline exceeded (\<open>timeout of 60000ms exceeded\<close> for the
  timeout configured here), and a response whose status is not accepted
  (\<open>Request failed with status code\<close> and the status).
\<close>

definition axios_network_error :: adapter_outcome where
  "axios_network_error = Rejected ''Network Error'' None True"

definition axios_timeout_error :: "nat \<Rightarrow> adapter_outcome" where
  "axios_timeout_error ms = Rejected (''timeout of '' @ string_of_nat ms @ ''ms exceeded'') None True"

definition axios_status_error :: "http_response \<Rightarrow> adapter_outcome" where
  "axios_status_error r =
     Rejected (''Request failed with status code '' @ string_of_nat (status r)) (Some r) True"

section \<open>chatService.ts and dataService.ts\<close>

text \<open>\<^verbatim>\<open>parseInt(import.meta.env.VITE_PROJECT_ID || '1', 10)\<close>.\<close>

definition PROJECT_ID :: "world \<Rightarrow> int option" where
  "PROJECT_ID w =
     parseInt (case VITE_PROJECT_ID w of None \<Rightarrow> ''1'' | Some v \<Rightarrow> if v \<noteq> [] then v else ''1'')"

text \<open>\<^verbatim>\<open>chunk.metadata?.key\<close>.\<close>

definition metadata_get :: "RetrievedChunk \<Rightarrow> string \<Rightarrow> js_value" where
  "metadata_get chunk k =
     (case metadata chunk of
        None \<Rightarrow> JUndefined
      | Some m \<Rightarrow> (case m k of None \<Rightarrow> JUndefined | Some v \<Rightarrow> v))"

text \<open>The callback that maps a retrieved chunk to a ChatSource.\<close>

definition chunk_to_source :: "RetrievedChunk \<Rightarrow> ChatSource" where
  "chunk_to_source chunk =
     (let title' = js_or (js_or (metadata_get chunk ''title'') (metadata_get chunk ''filename''))
                     (JString (''Document '' @ string_of_int (asset_id chunk)));
          url' = js_or (js_or (metadata_get chunk ''url'') (metadata_get chunk ''source''))
                   (JString [])
      in \<lparr>title = title', source_url = url', relevance_score = similarity_score chunk\<rparr>)"

definition TypeError :: "string \<Rightarrow> thrown" where
  "TypeError msg = ErrorInstance \<lparr>message = msg, error_response = None, config = None\<rparr>"

text \<open>
  chatService.sendMessage. A body without \<^verbatim>\<open>retrieved_chunks\<close> makes the call of
  \<^verbatim>\<open>map\<close> throw a TypeError.
\<close>

definition chatService_sendMessage :: "string \<Rightarrow> string \<Rightarrow> ChatMessage js" where
  "chatService_sendMessage query' sessionId' =
     (\<lambda>w. bind (apiClient_post ''/rag/query''
                  (RagQueryBody \<lparr>project_id = PROJECT_ID w, query = query'\<rparr>) [] Map.empty)
            (\<lambda>resp.
               case data resp of
                 RagQueryData ragResponse \<Rightarrow>
                   (let sources' = map chunk_to_source (retrieved_chunks ragResponse)
                    in bind (lift Date_now) (\<lambda>t1.
                       bind (lift Math_random) (\<lambda>r.
                       bind (lift Date_now) (\<lambda>t2.
                         return \<lparr>msg_id = string_of_nat t1 @ ''-'' @ as_text r,
                                  role = assistant,
                                  content = response ragResponse,
                                  timestamp = t2,
                                  msg_status = Some sent,
                                  sources = Some sources',
                                  confidence_score = None\<rparr>))))
               | _ \<Rightarrow> throw (TypeError ''Cannot read properties of undefined (reading 'map')''))
            w)"

definition DEFAULT_PROJECT_ID :: int where
  "DEFAULT_PROJECT_ID = 1"

definition dataService_uploadFile :: "File \<Rightarrow> response_data js" where
  "dataService_uploadFile file =
     bind (apiClient_post (''/data/upload/'' @ string_of_int DEFAULT_PROJECT_ID) (FormDataBody file) []
             [''Content-Type'' \<mapsto> ''multipart/form-data''])
          (\<lambda>resp. return (data resp))"

text \<open>\<^verbatim>\<open>uploadRes.asset_id\<close>, undefined on a body of another shape.\<close>

definition asset_id_of :: "response_data \<Rightarrow> int option" where
  "asset_id_of d = (case d of UploadData u \<Rightarrow> Some (upload_asset_id u) | _ \<Rightarrow> None)"

text \<open>processAsset with its default sizes; axios leaves an undefined parameter out.\<close>

definition dataService_processAsset :: "int option \<Rightarrow> response_data js" where
  "dataService_processAsset assetId =
     bind (apiClient_post (''/data/process/'' @ string_of_int DEFAULT_PROJECT_ID) NoBody
             ((case assetId of None \<Rightarrow> [] | Some a \<Rightarrow> [(''asset_id'', string_of_int a)])
              @ [(''chunk_size'', string_of_int 512), (''overlap_size'', string_of_int 50)])
             Map.empty)
          (\<lambda>resp. return (data resp))"

section \<open>ConversationStore: chatReducer.ts and the actions of ChatProvider\<close>

definition initialChatState :: ChatState where
  "initialChatState = \<lparr>messages = [], isLoading = False, error_slot = None, sessionId = []\<rparr>"

fun chatReducer :: "ChatState \<Rightarrow> ChatAction \<Rightarrow> ChatState" where
  "chatReducer state (ADD_MESSAGE m) = state\<lparr>messages := messages state @ [m]\<rparr>"
| "chatReducer state (SET_LOADING b) = state\<lparr>isLoading := b\<rparr>"
| "chatReducer state (SET_ERROR e) = state\<lparr>error_slot := e, isLoading := False\<rparr>"
| "chatReducer state CLEAR_ERROR = state\<lparr>error_slot := None\<rparr>"
| "chatReducer state CLEAR_MESSAGES = state\<lparr>messages := []\<rparr>"
| "chatReducer state (SET_SESSION_ID sid) = state\<lparr>sessionId := sid\<rparr>"

definition dispatch :: "ChatAction \<Rightarrow> unit js" where
  "dispatch action = (\<lambda>w. (Normal (), w\<lparr>chat := chatReducer (chat w) action\<rparr>))"

definition addMessage :: "ChatMessage \<Rightarrow> unit js" where
  "addMessage m = dispatch (ADD_MESSAGE m)"

definition setLoading :: "bool \<Rightarrow> unit js" where
  "setLoading b = dispatch (SET_LOADING b)"

definition setError :: "string option \<Rightarrow> unit js" where
  "setError e = dispatch (SET_ERROR e)"

definition clearError :: "unit js" where
  "clearError = dispatch CLEAR_ERROR"

section \<open>ConversationOrchestrator: ChatInterface.tsx\<close>

text \<open>\<^verbatim>\<open>err instanceof Error ? err.message : fallback\<close>.\<close>

definition message_or :: "thrown \<Rightarrow> string \<Rightarrow> string" where
  "message_or err fallback = (case err of ErrorInstance e \<Rightarrow> message e | _ \<Rightarrow> fallback)"


text \<open>A system message: \<^verbatim>\<open>{id: generateUUID(), role: 'system', content, timestamp: Date.now()}\<close>.\<close>

definition system_message :: "string \<Rightarrow> ChatMessage js" where
  "system_message text =
     bind (lift generateUUID) (\<lambda>uid.
     bind (lift Date_now) (\<lambda>now.
       return \<lparr>msg_id = uid, role = system, content = text, timestamp = now,
                msg_status = None, sources = None, confidence_score = None\<rparr>))"

definition handleUploadFile :: "File \<Rightarrow> unit js" where
  "handleUploadFile file =
     bind (setLoading True) (\<lambda>_.
     bind clearError (\<lambda>_.
     bind (system_message (''Uploading '' @ name file @ ''...'')) (\<lambda>startMsg.
     bind (addMessage startMsg) (\<lambda>_.
     try_finally
       (try_catch
          (bind (dataService_uploadFile file) (\<lambda>uploadRes.
           bind (system_message (''File uploaded. Processing '' @ name file @ ''...'')) (\<lambda>m2.
           bind (addMessage m2) (\<lambda>_.
           bind (dataService_processAsset (asset_id_of uploadRes)) (\<lambda>_.
           bind (system_message (name file @ '' processed and indexed successfully.'')) (\<lambda>m3.
             addMessage m3))))))
          (\<lambda>err.
             bind (setError (Some (message_or err ''Upload or processing failed''))) (\<lambda>_.
             bind (system_message (''Failed to process '' @ name file @ ''.'')) (\<lambda>m4.
               addMessage m4))))
       (setLoading False)))))"

section \<open>AuthSession: authService.ts\<close>

text \<open>\<^verbatim>\<open>response.data.csrf_token\<close>, undefined on a body of another shape.\<close>

definition csrf_token_of :: "response_data \<Rightarrow> string option" where
  "csrf_token_of d = (case d of CsrfData t \<Rightarrow> Some t | _ \<Rightarrow> None)"

definition fetchCsrfToken :: "string option js" where
  "fetchCsrfToken =
     try_catch
       (bind (apiClient_get ''/auth/csrf'') (\<lambda>resp.
          let token = csrf_token_of (data resp)
          in if token \<noteq> None \<and> token \<noteq> Some []
             then bind (setCsrfToken (the token)) (\<lambda>_. return token)
             else return None))
       (\<lambda>err. bind (console_warn ''Failed to fetch CSRF token:'' err) (\<lambda>_. return None))"

text \<open>
  login returns the body of the response. On a body of another shape than LoginResponse,
  \<^verbatim>\<open>data.access_token\<close> is undefined, which setItem stores as the text \<open>undefined\<close>, and
  \<^verbatim>\<open>data.user_id.toString()\<close> throws inside the try block of setUserId.
\<close>

definition authService_login :: "LoginRequest \<Rightarrow> response_data js" where
  "authService_login credentials =
     bind fetchCsrfToken (\<lambda>_.
     bind (apiClient_post ''/auth/login'' (LoginBody credentials) [] Map.empty) (\<lambda>resp.
       case data resp of
         LoginData d \<Rightarrow>
           bind (setAuthToken (access_token d)) (\<lambda>_.
           bind (setUserId (user_id d)) (\<lambda>_.
             return (data resp)))
       | _ \<Rightarrow> bind (setAuthToken ''undefined'') (\<lambda>_. return (data resp))))"

definition authService_logout :: "unit js" where
  "authService_logout = clearAuth"

text \<open>isAuthenticated reads localStorage outside any try block.\<close>

definition authService_isAuthenticated :: "bool js" where
  "authService_isAuthenticated =
     bind (localStorage_getItem TOKEN_KEY) (\<lambda>t. return (t \<noteq> None \<and> t \<noteq> Some []))"

section \<open>Predicates of the specification\<close>

text \<open>
  The shape of a version-4 UUID, as the unit tests of sessionUtils check it with the regular
  expression
  \<^verbatim>\<open>/^[0-9a-f]{8}-[0-9a-f]{4}-4[0-9a-f]{3}-[89ab][0-9a-f]{3}-[0-9a-f]{12}$/i\<close>.
\<close>

definition is_hex :: "char \<Rightarrow> bool" where
  "is_hex c = (c \<in> set ''0123456789abcdefABCDEF'')"

definition is_variant_digit :: "char \<Rightarrow> bool" where
  "is_variant_digit c = (c \<in> set ''89abAB'')"

fun uuid_match :: "string \<Rightarrow> string \<Rightarrow> bool" where
  "uuid_match [] [] = True"
| "uuid_match (p # ps) (c # cs) =
     ((if p = CHR ''x'' then is_hex c
       else if p = CHR ''y'' then is_variant_digit c
       else c = p) \<and> uuid_match ps cs)"
| "uuid_match _ _ = False"

definition is_uuid_v4 :: "string \<Rightarrow> bool" where
  "is_uuid_v4 s = uuid_match ''xxxxxxxx-xxxx-4xxx-yxxx-xxxxxxxxxxxx'' s"

text \<open>What is observed of a completion.\<close>

definition completes_normally :: "'a js \<Rightarrow> world \<Rightarrow> bool" where
  "completes_normally m w = (case fst (m w) of Normal x \<Rightarrow> True | Throws e \<Rightarrow> False)"

definition normal_value :: "'a completion \<Rightarrow> 'a option" where
  "normal_value c = (case c of Normal x \<Rightarrow> Some x | Throws e \<Rightarrow> None)"

definition thrown_value :: "'a completion \<Rightarrow> thrown option" where
  "thrown_value c = (case c of Normal x \<Rightarrow> None | Throws e \<Rightarrow> Some e)"

definition rejection_message :: "'a completion \<Rightarrow> string option" where
  "rejection_message c = (case c of Throws (ErrorInstance e) \<Rightarrow> Some (message e) | _ \<Rightarrow> None)"

definition rejection_status :: "'a completion \<Rightarrow> nat option" where
  "rejection_status c =
     (case c of
        Throws (ErrorInstance e) \<Rightarrow> (case error_response e of Some r \<Rightarrow> Some (status r) | None \<Rightarrow> None)
      | _ \<Rightarrow> None)"

text \<open>
  The citation of a chunk in the words of the specification: the title is the metadata
  title, else the metadata filename, else \<open>Document\<close> and the asset id; the url is the
  metadata url, else the metadata source, else the empty string; the relevance is the
  similarity score. A metadata entry is usable when it is present and truthy.
\<close>

definition usable_entry :: "RetrievedChunk \<Rightarrow> string \<Rightarrow> js_value option" where
  "usable_entry chunk k =
     (case metadata chunk of
        None \<Rightarrow> None
      | Some m \<Rightarrow> (case m k of None \<Rightarrow> None | Some v \<Rightarrow> if truthy v then Some v else None))"

definition spec_citation :: "RetrievedChunk \<Rightarrow> ChatSource" where
  "spec_citation chunk =
     \<lparr>title =
        (case usable_entry chunk ''title'' of
           Some t \<Rightarrow> t
         | None \<Rightarrow>
             (case usable_entry chunk ''filename'' of
                Some f \<Rightarrow> f
              | None \<Rightarrow> JString (''Document '' @ string_of_int (asset_id chunk)))),
      source_url =
        (case usable_entry chunk ''url'' of
           Some u \<Rightarrow> u
         | None \<Rightarrow> (case usable_entry chunk ''source'' of Some s \<Rightarrow> s | None \<Rightarrow> JString [])),
      relevance_score = similarity_score chunk\<rparr>"

text \<open>
  Two requests are the same call when they agree on method, url, body and parameters; a
  rejection is retryable when it carries its request and getRetryableError accepts it.
\<close>

definition same_request :: "request_config \<Rightarrow> request_config \<Rightarrow> bool" where
  "same_request c c' =
     (http_method c' = http_method c \<and> url c' = url c \<and> body c' = body c \<and> params c' = params c)"

definition retryable_rejection :: "adapter_outcome \<Rightarrow> bool" where
  "retryable_rejection out =
     (case out of
        Resolved r \<Rightarrow> False
      | Rejected msg resp with_config \<Rightarrow>
          with_config
          \<and> getRetryableError (ErrorInstance \<lparr>message = msg, error_response = resp, config = None\<rparr>))"

text \<open>
  What a step leaves unchanged: \<open>session_frame\<close> allows a change of the session id and of
  the number of random numbers drawn, of the requests dispatched, the delays and the
  console; \<open>quiet_frame\<close> says the last three are unchanged.
\<close>

definition session_frame :: "world \<Rightarrow> world \<Rightarrow> bool" where
  "session_frame w w' =
     (localStorage w' = localStorage w \<and> random_results w' = random_results w
      \<and> clock_results w' = clock_results w \<and> clock_calls w' = clock_calls w
      \<and> backend w' = backend w \<and> VITE_PROJECT_ID w' = VITE_PROJECT_ID w \<and> chat w' = chat w
      \<and> getItem_throws (sessionStorage w') = getItem_throws (sessionStorage w)
      \<and> setItem_throws (sessionStorage w') = setItem_throws (sessionStorage w)
      \<and> removeItem_throws (sessionStorage w') = removeItem_throws (sessionStorage w)
      \<and> items (sessionStorage w') CSRF_KEY = items (sessionStorage w) CSRF_KEY)"

definition quiet_frame :: "world \<Rightarrow> world \<Rightarrow> bool" where
  "quiet_frame w w' = (network w' = network w \<and> timers w' = timers w \<and> console w' = console w)"

text \<open>
  Stages of the flows, for stating their properties: the world in which the upload call
  is made, the world in which the process call is made after an upload call that returned
  in \<open>w\<close>, and the world in which the query call of the send-text flow is made; the
  messages a flow appended, and that it kept the earlier ones.
\<close>

definition upload_started :: "File \<Rightarrow> world \<Rightarrow> world" where
  "upload_started file w =
     snd (bind (setLoading True) (\<lambda>_.
          bind clearError (\<lambda>_.
          bind (system_message (''Uploading '' @ name file @ ''...'')) (\<lambda>startMsg.
            addMessage startMsg))) w)"

definition processing_started :: "File \<Rightarrow> world \<Rightarrow> world" where
  "processing_started file w =
     snd (bind (system_message (''File uploaded. Processing '' @ name file @ ''...'')) (\<lambda>m2.
            addMessage m2) w)"


definition appended :: "world \<Rightarrow> world \<Rightarrow> (Role \<times> string) list" where
  "appended w w' =
     map (\<lambda>m. (role m, content m)) (drop (length (messages (chat w))) (messages (chat w')))"

definition log_kept :: "world \<Rightarrow> world \<Rightarrow> bool" where
  "log_kept w w' = (take (length (messages (chat w))) (messages (chat w')) = messages (chat w))"

section \<open>Worlds and inputs of the examples\<close>

definition empty_storage :: Storage where
  "empty_storage = \<lparr>items = Map.empty, getItem_throws = False, setItem_throws = False,
     removeItem_throws = False\<rparr>"

definition broken_storage :: Storage where
  "broken_storage = \<lparr>items = Map.empty, getItem_throws = True, setItem_throws = True,
     removeItem_throws = True\<rparr>"

definition test_world :: world where
  "test_world = \<lparr>sessionStorage = empty_storage, localStorage = empty_storage,
     random_results = (\<lambda>n. \<lparr>times16 = 0, as_text = ''0''\<rparr>), random_calls = 0,
     clock_results = (\<lambda>n. 1700000000000 + n), clock_calls = 0,
     backend = (\<lambda>k. axios_network_error),
     network = [], timers = [], console = [], VITE_PROJECT_ID = None,
     chat = initialChatState\<rparr>"

definition stored_id_world :: "string \<Rightarrow> world" where
  "stored_id_world s = test_world\<lparr>sessionStorage := empty_storage\<lparr>items := [SESSION_ID_KEY \<mapsto> s]\<rparr>\<rparr>"

definition broken_storage_world :: world where
  "broken_storage_world = test_world\<lparr>sessionStorage := broken_storage, localStorage := broken_storage,
     random_results := (\<lambda>n. \<lparr>times16 = (if n < 31 then 0 else 1), as_text = ''0''\<rparr>)\<rparr>"

definition quota_exceeded_world :: world where
  "quota_exceeded_world = test_world\<lparr>sessionStorage := empty_storage\<lparr>setItem_throws := True\<rparr>,
     random_results := (\<lambda>n. \<lparr>times16 = (if n < 31 then 0 else 1), as_text = ''0''\<rparr>)\<rparr>"


definition query_config :: request_config where
  "query_config = \<lparr>http_method = POST, url = ''/rag/query'',
     body = RagQueryBody \<lparr>project_id = Some 1, query = ''hello''\<rparr>, params = [],
     headers = default_headers, retryCount = None\<rparr>"

definition server_error_world :: world where
  "server_error_world = test_world\<lparr>backend :=
     (\<lambda>k. axios_status_error \<lparr>status = 500, data = ErrorData ''Internal Server Error''\<rparr>)\<rparr>"

definition not_found_world :: world where
  "not_found_world = test_world\<lparr>backend :=
     (\<lambda>k. axios_status_error \<lparr>status = 404, data = ErrorData ''Not Found''\<rparr>)\<rparr>"

definition flaky_world :: "response_data \<Rightarrow> world" where
  "flaky_world d = test_world\<lparr>backend :=
     (\<lambda>k. if k < 1 then axios_network_error else Resolved \<lparr>status = 200, data = d\<rparr>)\<rparr>"

definition rag_world :: world where
  "rag_world = test_world\<lparr>backend := (\<lambda>k. Resolved \<lparr>status = 200, data = RagQueryData
     \<lparr>retrieved_chunks =
        [\<lparr>chunk_id = 1, asset_id = 101, chunk_content = ''Returns are accepted for 30 days.'',
          similarity_score = 95 / 100,
          metadata = Some [''title'' \<mapsto> JString ''Return Policy'',
                           ''url'' \<mapsto> JString ''https://x/returns'']\<rparr>],
      response = ''Our policy allows 30-day returns.''\<rparr>\<rparr>)\<rparr>"

definition doc_pdf :: File where
  "doc_pdf = \<lparr>name = ''doc.pdf''\<rparr>"

definition upload_ok_world :: world where
  "upload_ok_world = test_world\<lparr>backend :=
     (\<lambda>k. if k < 1
          then Resolved \<lparr>status = 200, data = UploadData \<lparr>upload_asset_id = 42, filename = ''doc.pdf''\<rparr>\<rparr>
          else Resolved \<lparr>status = 200, data = ProcessData \<lparr>task_id = ''task-1'', process_status = ''queued''\<rparr>\<rparr>)\<rparr>"

definition process_fails_world :: world where
  "process_fails_world = test_world\<lparr>backend :=
     (\<lambda>k. if k < 1
          then Resolved \<lparr>status = 200, data = UploadData \<lparr>upload_asset_id = 42, filename = ''doc.pdf''\<rparr>\<rparr>
          else axios_status_error \<lparr>status = 500, data = ErrorData ''Chunking failed''\<rparr>)\<rparr>"


definition credentials_alice :: LoginRequest where
  "credentials_alice = \<lparr>username = ''alice'', password = ''correct horse''\<rparr>"

definition login_alice :: LoginResponse where
  "login_alice = \<lparr>access_token = ''jwt-token'', token_type = ''bearer'', user_id = 7\<rparr>"

definition csrf_login_world :: world where
  "csrf_login_world = test_world\<lparr>backend :=
     (\<lambda>k. if k < 1 then Resolved \<lparr>status = 200, data = CsrfData ''csrf-abc''\<rparr>
          else Resolved \<lparr>status = 200, data = LoginData login_alice\<rparr>)\<rparr>"

definition csrf_down_world :: world where
  "csrf_down_world = test_world\<lparr>backend :=
     (\<lambda>k. if k < 1 then axios_status_error \<lparr>status = 404, data = ErrorData ''Not Found''\<rparr>
          else Resolved \<lparr>status = 200, data = LoginData login_alice\<rparr>)\<rparr>"

section \<open>Properties\<close>

subsection \<open>Generated identifiers\<close>

lemma unat_nibble: "unat (v :: 4 word) < 16"
  using unsigned_less [of v, where ?'a = nat] by simp

lemma hex_digit_is_hex: "is_hex (hex_digit v)"
proof -
  have "unat v < length ''0123456789abcdef''" using unat_nibble [of v] by simp
  then have "''0123456789abcdef'' ! unat v \<in> set ''0123456789abcdef''" by (rule nth_mem)
  then show ?thesis unfolding is_hex_def hex_digit_def by auto
qed

lemma variant_nibble: "unat (((r :: 4 word) AND 3) OR 8) \<in> {8, 9, 10, 11}"
proof -
  have r: "r = word_of_nat (unat r)" by simp
  have "unat r \<in> {0,1,2,3,4,5,6,7,8,9,10,11,12,13,14,15}"
    using unat_nibble [of r] by (simp only: insert_iff empty_iff) arith
  then obtain n :: nat where "r = word_of_nat n" "n \<in> {0,1,2,3,4,5,6,7,8,9,10,11,12,13,14,15}"
    using r by blast
  then show ?thesis by auto
qed

lemma hex_digit_variant: "is_variant_digit (hex_digit ((r AND 3) OR 8))"
  using variant_nibble [of r] unfolding hex_digit_def is_variant_digit_def by auto

lemma replace_xy_match: "uuid_match t (fst (replace_xy t w))"
proof (induction t arbitrary: w)
  case Nil
  show ?case by simp
next
  case (Cons c cs)
  show ?case
    by (simp add: uuid_char_def split_beta Cons.IH hex_digit_is_hex hex_digit_variant)
qed

lemma generateUUID_shape: "is_uuid_v4 (fst (generateUUID w))"
  unfolding is_uuid_v4_def generateUUID_def by (rule replace_xy_match)

lemma replace_xy_world:
  "snd (replace_xy t w) = w\<lparr>random_calls := random_calls w + length (filter (\<lambda>c. c = CHR ''x'' \<or> c = CHR ''y'') t)\<rparr>"
proof (induction t arbitrary: w)
  case Nil
  show ?case by simp
next
  case (Cons c cs)
  show ?case
    by (simp add: Math_random_def split_beta Cons.IH)
qed

lemma generateUUID_world: "snd (generateUUID w) = w\<lparr>random_calls := random_calls w + 31\<rparr>"
  unfolding generateUUID_def replace_xy_world by simp

lemmas js_defs = try_catch_def bind_def lift_def return_def throw_def try_finally_def
lemmas storage_defs = sessionStorage_getItem_def sessionStorage_setItem_def sessionStorage_removeItem_def
  localStorage_getItem_def localStorage_setItem_def localStorage_removeItem_def
  Storage_getItem_def Storage_setItem_def Storage_removeItem_def

lemma uuid_nonempty: "is_uuid_v4 s \<Longrightarrow> s \<noteq> []"
  unfolding is_uuid_v4_def by (cases s) simp_all

lemma getSessionId_existing:
  assumes "\<not> getItem_throws (sessionStorage w)"
    and "items (sessionStorage w) SESSION_ID_KEY = Some s" and "s \<noteq> []"
  shows "getSessionId w = (Normal s, w)"
  using assms unfolding getSessionId_def js_defs storage_defs by simp

lemma getSessionId_fresh:
  assumes "\<not> getItem_throws (sessionStorage w)" and "\<not> setItem_throws (sessionStorage w)"
    and "items (sessionStorage w) SESSION_ID_KEY = None \<or> items (sessionStorage w) SESSION_ID_KEY = Some []"
  shows "getSessionId w =
    (Normal (fst (generateUUID w)),
     (snd (generateUUID w))\<lparr>sessionStorage :=
        (sessionStorage w)\<lparr>items := (items (sessionStorage w))(SESSION_ID_KEY \<mapsto> fst (generateUUID w))\<rparr>\<rparr>)"
  using assms unfolding getSessionId_def js_defs storage_defs
  by (auto simp: split_beta generateUUID_world)

lemma getSessionId_getItem_throws:
  assumes "getItem_throws (sessionStorage w)"
  shows "getSessionId w = (Normal (fst (generateUUID w)), snd (generateUUID w))"
  using assms unfolding getSessionId_def js_defs storage_defs by (simp add: split_beta)

lemma getSessionId_setItem_throws:
  assumes "\<not> getItem_throws (sessionStorage w)" and "setItem_throws (sessionStorage w)"
    and "items (sessionStorage w) SESSION_ID_KEY = None \<or> items (sessionStorage w) SESSION_ID_KEY = Some []"
  shows "getSessionId w =
    (Normal (fst (generateUUID (snd (generateUUID w)))), snd (generateUUID (snd (generateUUID w))))"
  using assms unfolding getSessionId_def js_defs storage_defs
  by (auto simp: split_beta generateUUID_world)

lemma getSessionId_normal: "\<exists>v w'. getSessionId w = (Normal v, w')"
proof (cases "getItem_throws (sessionStorage w)")
  case True
  then show ?thesis by (simp add: getSessionId_getItem_throws)
next
  case False
  note g = this
  show ?thesis
  proof (cases "items (sessionStorage w) SESSION_ID_KEY = None \<or> items (sessionStorage w) SESSION_ID_KEY = Some []")
    case True
    then show ?thesis
      using g getSessionId_fresh [of w] getSessionId_setItem_throws [of w]
      by (cases "setItem_throws (sessionStorage w)") simp_all
  next
    case False
    then obtain s where "items (sessionStorage w) SESSION_ID_KEY = Some s" "s \<noteq> []" by auto
    then show ?thesis using g getSessionId_existing by blast
  qed
qed

lemmas uuid_eval = generateUUID_def Math_random_def uuid_char_def hex_digit_def

lemma broken_getItem: "getItem_throws (sessionStorage broken_storage_world)"
  by (simp add: test_world_def empty_storage_def initialChatState_def broken_storage_def broken_storage_world_def)

lemma broken_uuid1: "fst (generateUUID broken_storage_world) = ''00000000-0000-4000-8000-000000000000''"
  unfolding test_world_def empty_storage_def initialChatState_def broken_storage_def broken_storage_world_def by (simp add: uuid_eval)

lemma broken_uuid2:
  "fst (generateUUID (snd (generateUUID broken_storage_world))) = ''11111111-1111-4111-9111-111111111111''"
  unfolding generateUUID_world unfolding test_world_def empty_storage_def initialChatState_def broken_storage_def broken_storage_world_def by (simp add: uuid_eval)

subsection \<open>CredentialStore is fail-soft\<close>

lemma read_total:
  "getAuthToken w = (Normal (if getItem_throws (localStorage w) then None else items (localStorage w) TOKEN_KEY), w)"
  "getCsrfToken w = (Normal (if getItem_throws (sessionStorage w) then None else items (sessionStorage w) CSRF_KEY), w)"
  "getItem_throws (localStorage w) \<Longrightarrow> getUserId w = (Normal None, w)"
  "completes_normally getUserId w"
  unfolding getAuthToken_def getCsrfToken_def getUserId_def completes_normally_def js_defs storage_defs
  by simp_all

lemma write_total:
  "completes_normally (setAuthToken t) w" "completes_normally (setUserId i) w"
  "completes_normally (setCsrfToken t) w" "completes_normally removeAuthToken w"
  "completes_normally removeUserId w" "completes_normally removeCsrfToken w"
  "completes_normally clearSessionId w" "completes_normally clearAuth w"
  unfolding setAuthToken_def setUserId_def setCsrfToken_def removeAuthToken_def removeUserId_def
    removeCsrfToken_def clearSessionId_def clearAuth_def completes_normally_def js_defs storage_defs
  by (simp_all split: completion.splits)

lemma write_noop:
  "setItem_throws (localStorage w) \<Longrightarrow> setAuthToken t w = (Normal (), w)"
  "setItem_throws (localStorage w) \<Longrightarrow> setUserId i w = (Normal (), w)"
  "setItem_throws (sessionStorage w) \<Longrightarrow> setCsrfToken t w = (Normal (), w)"
  "removeItem_throws (localStorage w) \<Longrightarrow> removeAuthToken w = (Normal (), w)"
  "removeItem_throws (localStorage w) \<Longrightarrow> removeUserId w = (Normal (), w)"
  "removeItem_throws (sessionStorage w) \<Longrightarrow> removeCsrfToken w = (Normal (), w)"
  "removeItem_throws (sessionStorage w) \<Longrightarrow> clearSessionId w = (Normal (), w)"
  "removeItem_throws (localStorage w) \<Longrightarrow> clearAuth w = (Normal (), w)"
  unfolding setAuthToken_def setUserId_def setCsrfToken_def removeAuthToken_def removeUserId_def
    removeCsrfToken_def clearSessionId_def clearAuth_def js_defs storage_defs
  by simp_all

lemma getSessionId_completes: "completes_normally getSessionId w"
  using getSessionId_normal [of w] unfolding completes_normally_def by auto

text \<open>
  C9. Every operation of the CredentialStore completes normally in every world. When the
  storage method it calls throws, a read returns null (getSessionId: a freshly generated
  identifier of the version-4 shape, also when only the write of a new identifier throws)
  and a write or removal leaves the world as it was.
\<close>

theorem CredentialStore_never_throws:
  "completes_normally getSessionId w \<and> completes_normally clearSessionId w
   \<and> completes_normally getAuthToken w \<and> completes_normally (setAuthToken t) w
   \<and> completes_normally removeAuthToken w
   \<and> completes_normally getUserId w \<and> completes_normally (setUserId i) w
   \<and> completes_normally removeUserId w
   \<and> completes_normally getCsrfToken w \<and> completes_normally (setCsrfToken c) w
   \<and> completes_normally removeCsrfToken w
   \<and> completes_normally clearAuth w
   \<and> (getItem_throws (sessionStorage w) \<longrightarrow>
        getSessionId w = (Normal (fst (generateUUID w)), snd (generateUUID w))
        \<and> is_uuid_v4 (fst (generateUUID w)))
   \<and> (\<not> getItem_throws (sessionStorage w) \<longrightarrow> setItem_throws (sessionStorage w) \<longrightarrow>
        items (sessionStorage w) SESSION_ID_KEY = None \<longrightarrow>
        getSessionId w = (Normal (fst (generateUUID (snd (generateUUID w)))),
                          snd (generateUUID (snd (generateUUID w))))
        \<and> is_uuid_v4 (fst (generateUUID (snd (generateUUID w)))))
   \<and> (removeItem_throws (sessionStorage w) \<longrightarrow> clearSessionId w = (Normal (), w))
   \<and> (getItem_throws (localStorage w) \<longrightarrow>
        getAuthToken w = (Normal None, w) \<and> getUserId w = (Normal None, w))
   \<and> (getItem_throws (sessionStorage w) \<longrightarrow> getCsrfToken w = (Normal None, w))
   \<and> (setItem_throws (localStorage w) \<longrightarrow>
        setAuthToken t w = (Normal (), w) \<and> setUserId i w = (Normal (), w))
   \<and> (setItem_throws (sessionStorage w) \<longrightarrow> setCsrfToken c w = (Normal (), w))
   \<and> (removeItem_throws (localStorage w) \<longrightarrow>
        removeAuthToken w = (Normal (), w) \<and> removeUserId w = (Normal (), w)
        \<and> clearAuth w = (Normal (), w))
   \<and> (removeItem_throws (sessionStorage w) \<longrightarrow> removeCsrfToken w = (Normal (), w))"
  by (simp add: write_total write_noop getSessionId_completes read_total(4)
      getSessionId_getItem_throws getSessionId_setItem_throws generateUUID_shape)
     (simp add: read_total completes_normally_def)

theorem CredentialStore_never_throws_witness:
  "getItem_throws (sessionStorage broken_storage_world)
   \<and> setItem_throws (sessionStorage broken_storage_world)
   \<and> removeItem_throws (sessionStorage broken_storage_world)
   \<and> getItem_throws (localStorage broken_storage_world)
   \<and> setItem_throws (localStorage broken_storage_world)
   \<and> removeItem_throws (localStorage broken_storage_world)
   \<and> fst (getSessionId broken_storage_world) = Normal ''00000000-0000-4000-8000-000000000000''
   \<and> getAuthToken broken_storage_world = (Normal None, broken_storage_world)
   \<and> getUserId broken_storage_world = (Normal None, broken_storage_world)
   \<and> getCsrfToken broken_storage_world = (Normal None, broken_storage_world)
   \<and> setAuthToken ''tok'' broken_storage_world = (Normal (), broken_storage_world)
   \<and> setUserId 7 broken_storage_world = (Normal (), broken_storage_world)
   \<and> setCsrfToken ''csrf'' broken_storage_world = (Normal (), broken_storage_world)
   \<and> removeAuthToken broken_storage_world = (Normal (), broken_storage_world)
   \<and> removeUserId broken_storage_world = (Normal (), broken_storage_world)
   \<and> removeCsrfToken broken_storage_world = (Normal (), broken_storage_world)
   \<and> clearSessionId broken_storage_world = (Normal (), broken_storage_world)
   \<and> clearAuth broken_storage_world = (Normal (), broken_storage_world)
   \<and> \<not> getItem_throws (sessionStorage quota_exceeded_world)
   \<and> setItem_throws (sessionStorage quota_exceeded_world)
   \<and> items (sessionStorage quota_exceeded_world) SESSION_ID_KEY = None
   \<and> fst (getSessionId quota_exceeded_world) = Normal ''11111111-1111-4111-9111-111111111111''"
proof -
  have flags: "getItem_throws (sessionStorage broken_storage_world)"
    "setItem_throws (sessionStorage broken_storage_world)"
    "removeItem_throws (sessionStorage broken_storage_world)"
    "getItem_throws (localStorage broken_storage_world)"
    "setItem_throws (localStorage broken_storage_world)"
    "removeItem_throws (localStorage broken_storage_world)"
    by (simp_all add: test_world_def empty_storage_def initialChatState_def broken_storage_def broken_storage_world_def)
  have quota: "\<not> getItem_throws (sessionStorage quota_exceeded_world)"
    "setItem_throws (sessionStorage quota_exceeded_world)"
    "items (sessionStorage quota_exceeded_world) SESSION_ID_KEY = None"
    by (simp_all add: test_world_def empty_storage_def initialChatState_def quota_exceeded_world_def)
  have second: "fst (generateUUID (snd (generateUUID quota_exceeded_world)))
      = ''11111111-1111-4111-9111-111111111111''"
    unfolding generateUUID_world
    unfolding test_world_def empty_storage_def initialChatState_def quota_exceeded_world_def
    by (simp add: uuid_eval)
  have a: "fst (getSessionId quota_exceeded_world) = Normal ''11111111-1111-4111-9111-111111111111''"
    using CredentialStore_never_throws [of quota_exceeded_world "''tok''" 7 "''csrf''"] quota second
    by simp
  show ?thesis
    using CredentialStore_never_throws [of broken_storage_world "''tok''" 7 "''csrf''"] flags quota a
    by (simp add: broken_uuid1)
qed

subsection \<open>Stability of the session identifier\<close>

text \<open>
  C8 (as amended). While getItem and setItem of sessionStorage do not throw, two
  consecutive calls of getSessionId return the same, non-empty value. The value has the
  version-4 shape when getSessionId generated it (nothing, or the empty string, was
  stored); a non-empty stored value is returned as it is.
\<close>

theorem getSessionId_stable:
  assumes "\<not> getItem_throws (sessionStorage w)" and "\<not> setItem_throws (sessionStorage w)"
  shows "\<exists>v w1 w2. getSessionId w = (Normal v, w1) \<and> getSessionId w1 = (Normal v, w2) \<and> v \<noteq> []
    \<and> (case items (sessionStorage w) SESSION_ID_KEY of
          None \<Rightarrow> is_uuid_v4 v
        | Some s \<Rightarrow> if s = [] then is_uuid_v4 v else v = s)"
proof (cases "items (sessionStorage w) SESSION_ID_KEY = None \<or> items (sessionStorage w) SESSION_ID_KEY = Some []")
  case True
  let ?v = "fst (generateUUID w)"
  let ?w1 = "(snd (generateUUID w))\<lparr>sessionStorage :=
        (sessionStorage w)\<lparr>items := (items (sessionStorage w))(SESSION_ID_KEY \<mapsto> ?v)\<rparr>\<rparr>"
  have first: "getSessionId w = (Normal ?v, ?w1)"
    using assms True by (rule getSessionId_fresh)
  have shape: "is_uuid_v4 ?v" by (rule generateUUID_shape)
  then have ne: "?v \<noteq> []" by (rule uuid_nonempty)
  have second: "getSessionId ?w1 = (Normal ?v, ?w1)"
    using assms ne by (intro getSessionId_existing) simp_all
  show ?thesis using first second shape ne True by auto
next
  case False
  then obtain s where s: "items (sessionStorage w) SESSION_ID_KEY = Some s" "s \<noteq> []" by auto
  then have "getSessionId w = (Normal s, w)" using assms by (intro getSessionId_existing)
  then show ?thesis using s by simp
qed

theorem getSessionId_stable_witness:
  "\<not> getItem_throws (sessionStorage test_world) \<and> \<not> setItem_throws (sessionStorage test_world)
   \<and> items (sessionStorage test_world) SESSION_ID_KEY = None
   \<and> (\<exists>v w1 w2. getSessionId test_world = (Normal v, w1) \<and> getSessionId w1 = (Normal v, w2)
         \<and> v \<noteq> [] \<and> is_uuid_v4 v)"
proof -
  have h: "\<not> getItem_throws (sessionStorage test_world)" "\<not> setItem_throws (sessionStorage test_world)"
    "items (sessionStorage test_world) SESSION_ID_KEY = None"
    by (simp_all add: test_world_def empty_storage_def initialChatState_def)
  show ?thesis using getSessionId_stable [OF h(1) h(2)] h by simp
qed

text \<open>
  C8 as stated fails twice: a stored value that is no UUID is returned unchanged, and
  with a storage that throws two consecutive calls return two different identifiers.
\<close>

theorem getSessionId_stable_counterexample:
  "fst (getSessionId (stored_id_world ''existing-id'')) = Normal ''existing-id''
   \<and> \<not> is_uuid_v4 ''existing-id''
   \<and> fst (getSessionId broken_storage_world) = Normal ''00000000-0000-4000-8000-000000000000''
   \<and> fst (getSessionId (snd (getSessionId broken_storage_world)))
       = Normal ''11111111-1111-4111-9111-111111111111''"
proof -
  have a: "fst (getSessionId (stored_id_world ''existing-id'')) = Normal ''existing-id''"
    unfolding getSessionId_def js_defs storage_defs test_world_def empty_storage_def initialChatState_def stored_id_world_def by (simp add: SESSION_ID_KEY_def)
  have b: "\<not> is_uuid_v4 ''existing-id''"
    unfolding is_uuid_v4_def by (simp add: is_hex_def)
  have c: "getSessionId broken_storage_world
      = (Normal ''00000000-0000-4000-8000-000000000000'', snd (generateUUID broken_storage_world))"
    using getSessionId_getItem_throws [OF broken_getItem] broken_uuid1 by simp
  have "getItem_throws (sessionStorage (snd (generateUUID broken_storage_world)))"
    using broken_getItem by (simp add: generateUUID_world)
  then have d: "fst (getSessionId (snd (generateUUID broken_storage_world)))
      = Normal ''11111111-1111-4111-9111-111111111111''"
    using broken_uuid2 by (simp add: getSessionId_getItem_throws)
  show ?thesis using a b c d by simp
qed

subsection \<open>Regenerating the session identifier\<close>


lemma replace_xy_random_only:
  "random_results w = random_results w' \<Longrightarrow> random_calls w = random_calls w'
   \<Longrightarrow> fst (replace_xy t w) = fst (replace_xy t w')"
proof (induction t arbitrary: w w')
  case Nil
  show ?case by simp
next
  case (Cons c cs)
  have "fst (replace_xy cs w) = fst (replace_xy cs w')"
    using Cons.prems by (rule Cons.IH)
  moreover have "fst (replace_xy cs (snd (Math_random w))) = fst (replace_xy cs (snd (Math_random w')))"
    using Cons.prems by (intro Cons.IH) (simp_all add: Math_random_def)
  moreover have "fst (Math_random w) = fst (Math_random w')"
    using Cons.prems by (simp add: Math_random_def)
  ultimately show ?case by (simp add: split_beta)
qed







subsection \<open>What a call of the gateway leaves unchanged\<close>

lemma session_frame_refl: "session_frame w w"
  by (simp add: session_frame_def)

lemma session_frame_trans: "session_frame w w1 \<Longrightarrow> session_frame w1 w2 \<Longrightarrow> session_frame w w2"
  by (simp add: session_frame_def)

lemma quiet_frame_refl: "quiet_frame w w"
  by (simp add: quiet_frame_def)

lemma quiet_frame_trans: "quiet_frame w w1 \<Longrightarrow> quiet_frame w1 w2 \<Longrightarrow> quiet_frame w w2"
  by (simp add: quiet_frame_def)

lemma keys_distinct: "SESSION_ID_KEY \<noteq> CSRF_KEY"
  by (simp add: SESSION_ID_KEY_def CSRF_KEY_def)

lemma generateUUID_frames:
  "session_frame w (snd (generateUUID w))" "quiet_frame w (snd (generateUUID w))"
  by (simp_all add: generateUUID_world session_frame_def quiet_frame_def)

lemma getSessionId_frame:
  "\<exists>sid w0. getSessionId w = (Normal sid, w0) \<and> sid \<noteq> [] \<and> session_frame w w0 \<and> quiet_frame w w0"
proof (cases "getItem_throws (sessionStorage w)")
  case True
  then show ?thesis
    using generateUUID_frames [of w] uuid_nonempty [OF generateUUID_shape [of w]]
    by (simp add: getSessionId_getItem_throws)
next
  case False
  note g = this
  show ?thesis
  proof (cases "items (sessionStorage w) SESSION_ID_KEY = None \<or> items (sessionStorage w) SESSION_ID_KEY = Some []")
    case True
    note absent = this
    show ?thesis
    proof (cases "setItem_throws (sessionStorage w)")
      case True
      let ?w1 = "snd (generateUUID w)"
      have "session_frame w (snd (generateUUID ?w1))" "quiet_frame w (snd (generateUUID ?w1))"
        using generateUUID_frames [of w] generateUUID_frames [of ?w1]
        by (blast intro: session_frame_trans quiet_frame_trans)+
      then show ?thesis
        using getSessionId_setItem_throws [OF g True absent]
          uuid_nonempty [OF generateUUID_shape [of ?w1]] by simp
    next
      case False
      show ?thesis
        using getSessionId_fresh [OF g False absent] uuid_nonempty [OF generateUUID_shape [of w]]
          keys_distinct
        by (simp add: generateUUID_world session_frame_def quiet_frame_def)
    qed
  next
    case False
    then obtain s where "items (sessionStorage w) SESSION_ID_KEY = Some s" "s \<noteq> []" by auto
    then show ?thesis
      using g getSessionId_existing [of w s] by (simp add: session_frame_refl quiet_frame_refl)
  qed
qed

lemma request_interceptor_result:
  "\<exists>sid w0 c1. getSessionId w = (Normal sid, w0) \<and> request_interceptor c w = (Normal c1, w0)
     \<and> same_request c c1 \<and> retryCount c1 = retryCount c
     \<and> headers c1 ''X-Session-ID'' = Some sid
     \<and> headers c1 ''X-CSRF-Token'' =
         (if getItem_throws (sessionStorage w) \<or> items (sessionStorage w) CSRF_KEY = None
             \<or> items (sessionStorage w) CSRF_KEY = Some []
          then headers c ''X-CSRF-Token'' else items (sessionStorage w) CSRF_KEY)
     \<and> session_frame w w0 \<and> quiet_frame w w0"
proof -
  obtain sid w0 where g: "getSessionId w = (Normal sid, w0)" "sid \<noteq> []"
    "session_frame w w0" "quiet_frame w w0"
    using getSessionId_frame by blast
  have csrf: "items (sessionStorage w0) CSRF_KEY = items (sessionStorage w) CSRF_KEY"
    "getItem_throws (sessionStorage w0) = getItem_throws (sessionStorage w)"
    using g(3) by (simp_all add: session_frame_def)
  show ?thesis
    using g csrf
    unfolding request_interceptor_def bind_def return_def
    by (auto simp: read_total same_request_def Let_def)
qed


lemma apiClient_attempt:
  assumes ri: "request_interceptor c w = (Normal c1, w0)"
    and q: "quiet_frame w w0" and f: "session_frame w w0" and rc: "retryCount c1 = retryCount c"
  shows "apiClient c w =
    (case backend w (length (network w)) of
       Resolved r \<Rightarrow> (Normal r, w0\<lparr>network := network w @ [c1]\<rparr>)
     | Rejected msg resp with_config \<Rightarrow>
         if \<not> with_config
         then (Throws (ErrorInstance \<lparr>message = msg, error_response = resp, config = None\<rparr>),
               w0\<lparr>network := network w @ [c1]\<rparr>)
         else if getRetryableError (ErrorInstance \<lparr>message = msg, error_response = resp, config = Some c1\<rparr>)
                 \<and> retry_count c < MAX_RETRIES
         then apiClient (c1\<lparr>retryCount := Some (retry_count c + 1)\<rparr>)
                (w0\<lparr>network := network w @ [c1], timers := timers w @ [RETRY_DELAY]\<rparr>)
         else (Throws (ErrorInstance \<lparr>message = msg, error_response = resp,
                  config = Some (c1\<lparr>retryCount := Some (retry_count c)\<rparr>)\<rparr>),
               if should_log \<lparr>message = msg, error_response = resp, config = Some c1\<rparr>
               then w0\<lparr>network := network w @ [c1],
                      console := console w @ [ConsoleError ''API Error:''
                        (formatApiError (ErrorInstance \<lparr>message = msg, error_response = resp, config = Some c1\<rparr>))]\<rparr>
               else w0\<lparr>network := network w @ [c1]\<rparr>))"
proof -
  have eqs: "network w0 = network w" "timers w0 = timers w" "console w0 = console w"
    "backend w0 = backend w"
    using q f by (simp_all add: quiet_frame_def session_frame_def)
  have rcount: "retry_count c1 = retry_count c"
    using rc by (simp add: retry_count_def)
  show ?thesis
    by (subst apiClient.simps)
       (auto simp: ri dispatch_request_def setTimeout_def console_error_def eqs rcount Let_def
          split: adapter_outcome.splits)
qed


lemma getRetryableError_message:
  "getRetryableError (ErrorInstance e) =
     (includes_str (message e) ''Network'' \<or> includes_str (message e) ''fetch''
      \<or> includes_str (message e) ''ERR_NETWORK'' \<or> includes_str (message e) ''timeout''
      \<or> includes_str (message e) ''TIMEOUT'')"
  by (auto simp: getRetryableError_def isNetworkError_def isTimeoutError_def)

lemma retryable_rejection_iff:
  "retryable_rejection (Rejected msg resp wc) =
     (wc \<and> getRetryableError (ErrorInstance \<lparr>message = msg, error_response = resp, config = cfg\<rparr>))"
  by (simp add: retryable_rejection_def getRetryableError_message)

lemma retryable_rejection_Resolved: "\<not> retryable_rejection (Resolved r)"
  by (simp add: retryable_rejection_def)

lemma retry_chain:
  assumes "\<forall>j<k. retryable_rejection (backend w (length (network w) + j))"
    and "retry_count c + k \<le> MAX_RETRIES"
  shows "\<exists>c' w' rs. apiClient c w = apiClient c' w' \<and> same_request c c'
     \<and> retry_count c' = retry_count c + k
     \<and> network w' = network w @ rs \<and> length rs = k \<and> list_all (same_request c) rs
     \<and> timers w' = timers w @ replicate k RETRY_DELAY \<and> console w' = console w
     \<and> session_frame w w'"
  using assms
proof (induction k arbitrary: c w)
  case 0
  have "same_request c c" by (simp add: same_request_def)
  then show ?case using session_frame_refl by fastforce
next
  case (Suc k)
  obtain sid w0 c1 where ri: "request_interceptor c w = (Normal c1, w0)" "same_request c c1"
      "retryCount c1 = retryCount c" "session_frame w w0" "quiet_frame w w0"
    using request_interceptor_result [of w c] by blast
  let ?c2 = "c1\<lparr>retryCount := Some (retry_count c + 1)\<rparr>"
  let ?w2 = "w0\<lparr>network := network w @ [c1], timers := timers w @ [RETRY_DELAY]\<rparr>"
  have "retryable_rejection (backend w (length (network w)))"
    using Suc.prems(1) by (metis add.right_neutral zero_less_Suc)
  then obtain msg resp where out: "backend w (length (network w)) = Rejected msg resp True"
      "getRetryableError (ErrorInstance \<lparr>message = msg, error_response = resp, config = Some c1\<rparr>)"
    by (cases "backend w (length (network w))")
       (auto simp: retryable_rejection_iff [where cfg = "Some c1"] retryable_rejection_Resolved)
  have lt: "retry_count c < MAX_RETRIES" using Suc.prems(2) by simp
  have step: "apiClient c w = apiClient ?c2 ?w2"
    using apiClient_attempt [OF ri(1) ri(5) ri(4) ri(3)] out lt by simp
  have b: "backend ?w2 = backend w" using ri(4) by (simp add: session_frame_def)
  have rc2: "retry_count ?c2 = retry_count c + 1" by (simp add: retry_count_def)
  have "\<forall>j<k. retryable_rejection (backend ?w2 (length (network ?w2) + j))"
  proof (intro allI impI)
    fix j assume "j < k"
    then have "Suc j < Suc k" by simp
    then have "retryable_rejection (backend w (length (network w) + Suc j))"
      using Suc.prems(1) by blast
    then show "retryable_rejection (backend ?w2 (length (network ?w2) + j))"
      using b by simp
  qed
  moreover have "retry_count ?c2 + k \<le> MAX_RETRIES" using Suc.prems(2) rc2 by simp
  ultimately obtain c' w' rs where ih: "apiClient ?c2 ?w2 = apiClient c' w'" "same_request ?c2 c'"
      "retry_count c' = retry_count ?c2 + k"
      "network w' = network ?w2 @ rs" "length rs = k" "list_all (same_request ?c2) rs"
      "timers w' = timers ?w2 @ replicate k RETRY_DELAY" "console w' = console ?w2"
      "session_frame ?w2 w'"
    using Suc.IH [of ?w2 ?c2] by blast
  have sr: "same_request c ?c2" using ri(2) by (simp add: same_request_def)
  have sr_eq: "same_request ?c2 = same_request c"
    using sr by (auto simp: same_request_def fun_eq_iff)
  have f2: "session_frame w ?w2" using ri(4) by (simp add: session_frame_def)
  have "apiClient c w = apiClient c' w'" using step ih(1) by simp
  moreover have "same_request c c'" using ih(2) sr_eq by simp
  moreover have "retry_count c' = retry_count c + Suc k" using ih(3) rc2 by simp
  moreover have "network w' = network w @ (c1 # rs)" using ih(4) by simp
  moreover have "length (c1 # rs) = Suc k" using ih(5) by simp
  moreover have "list_all (same_request c) (c1 # rs)" using ih(6) ri(2) sr_eq by simp
  moreover have "timers w' = timers w @ replicate (Suc k) RETRY_DELAY"
    using ih(7) by (simp add: replicate_append_same)
  moreover have "console w' = console w" using ih(8) ri(5) by (simp add: quiet_frame_def)
  moreover have "session_frame w w'" using f2 ih(9) by (rule session_frame_trans)
  ultimately show ?case by blast
qed


lemma digit_char_is_digit: "d < 10 \<Longrightarrow> is_digit (digit_char d)"
proof -
  assume "d < 10"
  then have "d \<in> {0, 1, 2, 3, 4, 5, 6, 7, 8, 9}" by (simp only: insert_iff empty_iff) arith
  then show ?thesis by (auto simp: digit_char_def is_digit_def)
qed

lemma string_of_nat_digits: "list_all is_digit (string_of_nat n)"
proof (induction n rule: string_of_nat.induct)
  case (1 n)
  show ?case
  proof (cases "n < 10")
    case True
    then show ?thesis by (subst string_of_nat.simps) (simp add: digit_char_is_digit)
  next
    case False
    then have "list_all is_digit (string_of_nat (n div 10))" by (rule "1.IH")
    moreover have "is_digit (digit_char (n mod 10))" by (rule digit_char_is_digit) simp
    ultimately show ?thesis using False by (subst string_of_nat.simps) simp
  qed
qed

lemma digits_exclude:
  "list_all is_digit ds \<Longrightarrow> \<not> is_digit p \<Longrightarrow> \<not> includes_str ds (p # ps)"
  by (induction ds) auto

lemma status_message_not_retryable:
  "\<not> getRetryableError (ErrorInstance \<lparr>message = ''Request failed with status code '' @ string_of_nat n,
       error_response = resp, config = cfg\<rparr>)"
proof -
  have d: "list_all is_digit (string_of_nat n)" by (rule string_of_nat_digits)
  have "\<not> includes_str (string_of_nat n) ''Network''" "\<not> includes_str (string_of_nat n) ''fetch''"
    "\<not> includes_str (string_of_nat n) ''ERR_NETWORK''" "\<not> includes_str (string_of_nat n) ''timeout''"
    "\<not> includes_str (string_of_nat n) ''TIMEOUT''"
    by (rule digits_exclude [OF d], simp add: is_digit_def)+
  then show ?thesis by (simp add: getRetryableError_message)
qed

lemma network_error_retryable: "retryable_rejection axios_network_error"
  by (simp add: axios_network_error_def retryable_rejection_def getRetryableError_message)

lemma timeout_error_retryable: "retryable_rejection (axios_timeout_error ms)"
  by (simp add: axios_timeout_error_def retryable_rejection_def getRetryableError_message)

lemma status_error_not_retryable: "\<not> retryable_rejection (axios_status_error r)"
  using status_message_not_retryable
  by (simp add: axios_status_error_def retryable_rejection_def)

lemma apiClient_final_resolved:
  assumes "backend w (length (network w)) = Resolved r"
  shows "\<exists>c1 w'. apiClient c w = (Normal r, w') \<and> network w' = network w @ [c1]
     \<and> same_request c c1 \<and> timers w' = timers w \<and> console w' = console w
     \<and> session_frame w w'"
proof -
  obtain sid w0 c1 where ri: "request_interceptor c w = (Normal c1, w0)" "same_request c c1"
      "retryCount c1 = retryCount c" "session_frame w w0" "quiet_frame w w0"
    using request_interceptor_result [of w c] by blast
  have "apiClient c w = (Normal r, w0\<lparr>network := network w @ [c1]\<rparr>)"
    using apiClient_attempt [OF ri(1) ri(5) ri(4) ri(3)] assms by simp
  then show ?thesis
    using ri(2,4,5) by (auto simp: session_frame_def quiet_frame_def)
qed

lemma apiClient_final_rejected:
  assumes "backend w (length (network w)) = Rejected msg resp True"
    and "\<not> retryable_rejection (Rejected msg resp True) \<or> MAX_RETRIES \<le> retry_count c"
  shows "\<exists>c1 w' cfg. apiClient c w
        = (Throws (ErrorInstance \<lparr>message = msg, error_response = resp, config = Some cfg\<rparr>), w')
     \<and> network w' = network w @ [c1] \<and> same_request c c1 \<and> timers w' = timers w
     \<and> console w' = console w @
          (if should_log \<lparr>message = msg, error_response = resp, config = None\<rparr>
           then [ConsoleError ''API Error:''
                  (formatApiError (ErrorInstance \<lparr>message = msg, error_response = resp, config = None\<rparr>))]
           else [])
     \<and> session_frame w w'"
proof -
  obtain sid w0 c1 where ri: "request_interceptor c w = (Normal c1, w0)" "same_request c c1"
      "retryCount c1 = retryCount c" "session_frame w w0" "quiet_frame w w0"
    using request_interceptor_result [of w c] by blast
  let ?e = "\<lparr>message = msg, error_response = resp, config = Some c1\<rparr>"
  have no: "\<not> (getRetryableError (ErrorInstance ?e) \<and> retry_count c < MAX_RETRIES)"
    using assms(2) by (auto simp: retryable_rejection_iff [where cfg = "Some c1"])
  have log: "should_log ?e = should_log \<lparr>message = msg, error_response = resp, config = None\<rparr>"
    by (simp add: should_log_def)
  have fmt: "formatApiError (ErrorInstance ?e)
      = formatApiError (ErrorInstance \<lparr>message = msg, error_response = resp, config = None\<rparr>)"
    by (simp add: formatApiError_def isNetworkError_def isTimeoutError_def getErrorMessage_def)
  show ?thesis
    using apiClient_attempt [OF ri(1) ri(5) ri(4) ri(3)] assms(1) no ri(2,4,5)
    by (auto simp: log fmt session_frame_def quiet_frame_def)
qed


lemma retries_exhausted:
  assumes fresh: "retryCount c = None"
    and fail: "\<forall>j\<le>MAX_RETRIES. retryable_rejection (backend w (length (network w) + j))"
  shows "\<exists>msg resp cfg w' rs.
       backend w (length (network w) + MAX_RETRIES) = Rejected msg resp True
     \<and> apiClient c w = (Throws (ErrorInstance \<lparr>message = msg, error_response = resp, config = Some cfg\<rparr>), w')
     \<and> network w' = network w @ rs \<and> length rs = MAX_RETRIES + 1 \<and> list_all (same_request c) rs
     \<and> timers w' = timers w @ replicate MAX_RETRIES RETRY_DELAY
     \<and> session_frame w w'"
proof -
  have c0: "retry_count c = 0" using fresh by (simp add: retry_count_def)
  have "\<forall>j<MAX_RETRIES. retryable_rejection (backend w (length (network w) + j))"
    using fail by simp
  moreover have "retry_count c + MAX_RETRIES \<le> MAX_RETRIES" using c0 by simp
  ultimately obtain c' w1 rs where ch: "apiClient c w = apiClient c' w1" "same_request c c'"
      "retry_count c' = retry_count c + MAX_RETRIES" "network w1 = network w @ rs"
      "length rs = MAX_RETRIES" "list_all (same_request c) rs"
      "timers w1 = timers w @ replicate MAX_RETRIES RETRY_DELAY" "console w1 = console w"
      "session_frame w w1"
    using retry_chain [of MAX_RETRIES w c] by blast
  have b: "backend w1 = backend w" using ch(9) by (simp add: session_frame_def)
  have pos: "length (network w1) = length (network w) + MAX_RETRIES" using ch(4,5) by simp
  have "retryable_rejection (backend w (length (network w) + MAX_RETRIES))" using fail by simp
  then obtain msg resp where out: "backend w (length (network w) + MAX_RETRIES) = Rejected msg resp True"
    by (cases "backend w (length (network w) + MAX_RETRIES)")
       (auto simp: retryable_rejection_def)
  have out1: "backend w1 (length (network w1)) = Rejected msg resp True"
    using out b pos by simp
  have full: "\<not> retryable_rejection (Rejected msg resp True) \<or> MAX_RETRIES \<le> retry_count c'"
    using ch(3) by simp
  obtain c1 w' cfg where fin:
      "apiClient c' w1 = (Throws (ErrorInstance \<lparr>message = msg, error_response = resp, config = Some cfg\<rparr>), w')"
      "network w' = network w1 @ [c1]" "same_request c' c1" "timers w' = timers w1"
      "session_frame w1 w'"
    using apiClient_final_rejected [OF out1 full] by blast
  have sr: "same_request c c1" using ch(2) fin(3) by (simp add: same_request_def)
  have "network w' = network w @ (rs @ [c1])" using fin(2) ch(4) by simp
  moreover have "length (rs @ [c1]) = MAX_RETRIES + 1" using ch(5) by simp
  moreover have "list_all (same_request c) (rs @ [c1])" using ch(6) sr by simp
  moreover have "timers w' = timers w @ replicate MAX_RETRIES RETRY_DELAY" using fin(4) ch(7) by simp
  moreover have "session_frame w w'" using ch(9) fin(5) by (rule session_frame_trans)
  ultimately show ?thesis using out ch(1) fin(1) by force
qed

lemma retried_then_resolved:
  assumes fresh: "retryCount c = None" and k: "k \<le> MAX_RETRIES"
    and fail: "\<forall>j<k. retryable_rejection (backend w (length (network w) + j))"
    and ok: "backend w (length (network w) + k) = Resolved r"
  shows "\<exists>w' rs. apiClient c w = (Normal r, w')
     \<and> network w' = network w @ rs \<and> length rs = k + 1 \<and> list_all (same_request c) rs
     \<and> timers w' = timers w @ replicate k RETRY_DELAY \<and> console w' = console w
     \<and> session_frame w w'"
proof -
  have c0: "retry_count c = 0" using fresh by (simp add: retry_count_def)
  then have "retry_count c + k \<le> MAX_RETRIES" using k by simp
  then obtain c' w1 rs where ch: "apiClient c w = apiClient c' w1" "same_request c c'"
      "retry_count c' = retry_count c + k" "network w1 = network w @ rs"
      "length rs = k" "list_all (same_request c) rs"
      "timers w1 = timers w @ replicate k RETRY_DELAY" "console w1 = console w"
      "session_frame w w1"
    using retry_chain [OF fail] by blast
  have b: "backend w1 = backend w" using ch(9) by (simp add: session_frame_def)
  have pos: "length (network w1) = length (network w) + k" using ch(4,5) by simp
  have out1: "backend w1 (length (network w1)) = Resolved r" using ok b pos by simp
  obtain c1 w' where fin: "apiClient c' w1 = (Normal r, w')" "network w' = network w1 @ [c1]"
      "same_request c' c1" "timers w' = timers w1" "console w' = console w1" "session_frame w1 w'"
    using apiClient_final_resolved [OF out1] by blast
  have sr: "same_request c c1" using ch(2) fin(3) by (simp add: same_request_def)
  have "network w' = network w @ (rs @ [c1])" using fin(2) ch(4) by simp
  moreover have "length (rs @ [c1]) = k + 1" using ch(5) by simp
  moreover have "list_all (same_request c) (rs @ [c1])" using ch(6) sr by simp
  moreover have "timers w' = timers w @ replicate k RETRY_DELAY" using fin(4) ch(7) by simp
  moreover have "console w' = console w" using fin(5) ch(8) by simp
  moreover have "session_frame w w'" using ch(9) fin(6) by (rule session_frame_trans)
  ultimately show ?thesis using ch(1) fin(1) by force
qed

lemma status_error_surfaced:
  assumes "backend w (length (network w)) = axios_status_error r"
  shows "\<exists>cfg w' c1. apiClient c w
       = (Throws (ErrorInstance \<lparr>message = ''Request failed with status code '' @ string_of_nat (status r),
            error_response = Some r, config = Some cfg\<rparr>), w')
     \<and> network w' = network w @ [c1] \<and> same_request c c1 \<and> timers w' = timers w
     \<and> console w' = console w @
          (if 500 \<le> status r
           then [ConsoleError ''API Error:'' (''Request failed with status code '' @ string_of_nat (status r))]
           else [])
     \<and> session_frame w w'"
proof -
  define msg where "msg = ''Request failed with status code '' @ string_of_nat (status r)"
  have out: "backend w (length (network w)) = Rejected msg (Some r) True"
    using assms by (simp add: axios_status_error_def msg_def)
  have nr: "\<not> getRetryableError (ErrorInstance \<lparr>message = msg, error_response = Some r, config = None\<rparr>)"
    unfolding msg_def by (rule status_message_not_retryable)
  have no: "\<not> retryable_rejection (Rejected msg (Some r) True) \<or> MAX_RETRIES \<le> retry_count c"
    using nr by (simp add: retryable_rejection_def)
  have fmt: "formatApiError (ErrorInstance \<lparr>message = msg, error_response = Some r, config = None\<rparr>) = msg"
    using nr by (simp add: formatApiError_def getRetryableError_def getErrorMessage_def)
  obtain c1 w' cfg where fin:
      "apiClient c w = (Throws (ErrorInstance \<lparr>message = msg, error_response = Some r, config = Some cfg\<rparr>), w')"
      "network w' = network w @ [c1]" "same_request c c1" "timers w' = timers w"
      "console w' = console w @
          (if should_log \<lparr>message = msg, error_response = Some r, config = None\<rparr>
           then [ConsoleError ''API Error:''
                  (formatApiError (ErrorInstance \<lparr>message = msg, error_response = Some r, config = None\<rparr>))]
           else [])"
      "session_frame w w'"
    using apiClient_final_rejected [OF out no] by blast
  have "console w' = console w @ (if 500 \<le> status r then [ConsoleError ''API Error:'' msg] else [])"
    using fin(5) by (simp add: fmt should_log_def)
  then show ?thesis
    using fin(1,2,3,4,6) unfolding msg_def by blast
qed

subsection \<open>The retry budget of the gateway\<close>

text \<open>
  C2. The maximum retry count is 2 and the delay 1000 ms. A fresh request that meets a
  network error on every attempt is dispatched three times, that is reissued twice, with
  two delays of 1000 ms, and is then rejected with the network error. When only the first
  \<open>k \<le> 2\<close> attempts meet a network error and the next one is answered, it is reissued
  \<open>k\<close> times, with \<open>k\<close> delays. A request answered with status 404 is dispatched once,
  with no delay, and rejected with that response.
\<close>

theorem retry_budget:
  "MAX_RETRIES = 2 \<and> RETRY_DELAY = 1000
   \<and> (retryCount c = None \<longrightarrow>
        (\<forall>j. backend w (length (network w) + j) = axios_network_error) \<longrightarrow>
        (\<exists>e w' rs. apiClient c w = (Throws (ErrorInstance e), w') \<and> message e = ''Network Error''
           \<and> network w' = network w @ rs \<and> length rs = 1 + 2 \<and> list_all (same_request c) rs
           \<and> timers w' = timers w @ [1000, 1000]))
   \<and> (retryCount c = None \<longrightarrow> k \<le> 2 \<longrightarrow>
        (\<forall>j<k. backend v (length (network v) + j) = axios_network_error) \<longrightarrow>
        backend v (length (network v) + k) = Resolved r \<longrightarrow>
        (\<exists>v' rs. apiClient c v = (Normal r, v') \<and> network v' = network v @ rs
           \<and> length rs = 1 + k \<and> list_all (same_request c) rs
           \<and> timers v' = timers v @ replicate k 1000))
   \<and> (backend u (length (network u)) = axios_status_error \<lparr>status = 404, data = d\<rparr> \<longrightarrow>
        (\<exists>e u' c1. apiClient c u = (Throws (ErrorInstance e), u')
           \<and> error_response e = Some \<lparr>status = 404, data = d\<rparr>
           \<and> network u' = network u @ [c1] \<and> same_request c c1 \<and> timers u' = timers u))"
proof (intro conjI impI)
  show "MAX_RETRIES = 2" by (simp add: MAX_RETRIES_def)
  show "RETRY_DELAY = 1000" by (simp add: RETRY_DELAY_def)
next
  assume fresh: "retryCount c = None"
    and down: "\<forall>j. backend w (length (network w) + j) = axios_network_error"
  have "\<forall>j\<le>MAX_RETRIES. retryable_rejection (backend w (length (network w) + j))"
    using down network_error_retryable by simp
  then obtain msg resp cfg w' rs where ex:
      "backend w (length (network w) + MAX_RETRIES) = Rejected msg resp True"
      "apiClient c w = (Throws (ErrorInstance \<lparr>message = msg, error_response = resp, config = Some cfg\<rparr>), w')"
      "network w' = network w @ rs" "length rs = MAX_RETRIES + 1" "list_all (same_request c) rs"
      "timers w' = timers w @ replicate MAX_RETRIES RETRY_DELAY"
    using retries_exhausted [OF fresh] by blast
  have "backend w (length (network w) + MAX_RETRIES) = axios_network_error"
    using down by blast
  then have "msg = ''Network Error''" using ex(1) by (simp add: axios_network_error_def)
  moreover have "timers w' = timers w @ [1000, 1000]"
    using ex(6) by (simp add: MAX_RETRIES_def RETRY_DELAY_def numeral_2_eq_2)
  moreover have "length rs = 1 + 2" using ex(4) by (simp add: MAX_RETRIES_def)
  ultimately show "\<exists>e w' rs. apiClient c w = (Throws (ErrorInstance e), w') \<and> message e = ''Network Error''
           \<and> network w' = network w @ rs \<and> length rs = 1 + 2 \<and> list_all (same_request c) rs
           \<and> timers w' = timers w @ [1000, 1000]"
    using ex(2,3,5) by simp
next
  assume fresh: "retryCount c = None" and k: "k \<le> 2"
    and fail: "\<forall>j<k. backend v (length (network v) + j) = axios_network_error"
    and ok: "backend v (length (network v) + k) = Resolved r"
  have k': "k \<le> MAX_RETRIES" using k by (simp add: MAX_RETRIES_def)
  have "\<forall>j<k. retryable_rejection (backend v (length (network v) + j))"
    using fail network_error_retryable by simp
  from retried_then_resolved [OF fresh k' this ok]
  show "\<exists>v' rs. apiClient c v = (Normal r, v') \<and> network v' = network v @ rs
           \<and> length rs = 1 + k \<and> list_all (same_request c) rs
           \<and> timers v' = timers v @ replicate k 1000"
    by (auto simp: RETRY_DELAY_def)
next
  assume nf: "backend u (length (network u)) = axios_status_error \<lparr>status = 404, data = d\<rparr>"
  from status_error_surfaced [OF nf, of c]
  show "\<exists>e u' c1. apiClient c u = (Throws (ErrorInstance e), u')
           \<and> error_response e = Some \<lparr>status = 404, data = d\<rparr>
           \<and> network u' = network u @ [c1] \<and> same_request c c1 \<and> timers u' = timers u"
    by auto
qed

theorem retry_budget_witness:
  "retryCount query_config = None
   \<and> backend test_world 0 = axios_network_error
   \<and> rejection_message (fst (apiClient query_config test_world)) = Some ''Network Error''
   \<and> length (network (snd (apiClient query_config test_world))) = 3
   \<and> timers (snd (apiClient query_config test_world)) = [1000, 1000]
   \<and> backend (flaky_world OtherData) 0 = axios_network_error
   \<and> backend (flaky_world OtherData) 1 = Resolved \<lparr>status = 200, data = OtherData\<rparr>
   \<and> fst (apiClient query_config (flaky_world OtherData)) = Normal \<lparr>status = 200, data = OtherData\<rparr>
   \<and> length (network (snd (apiClient query_config (flaky_world OtherData)))) = 2
   \<and> timers (snd (apiClient query_config (flaky_world OtherData))) = [1000]
   \<and> backend not_found_world 0 = axios_status_error \<lparr>status = 404, data = ErrorData ''Not Found''\<rparr>
   \<and> rejection_status (fst (apiClient query_config not_found_world)) = Some 404
   \<and> length (network (snd (apiClient query_config not_found_world))) = 1
   \<and> timers (snd (apiClient query_config not_found_world)) = []"
proof -
  have h1: "retryCount query_config = None" by (simp add: test_world_def empty_storage_def initialChatState_def query_config_def flaky_world_def not_found_world_def)
  have h2: "\<forall>j. backend test_world (length (network test_world) + j) = axios_network_error"
    by (simp add: test_world_def empty_storage_def initialChatState_def query_config_def flaky_world_def not_found_world_def)
  have h3: "\<forall>j<1. backend (flaky_world OtherData) (length (network (flaky_world OtherData)) + j)
         = axios_network_error"
    by (simp add: test_world_def empty_storage_def initialChatState_def query_config_def flaky_world_def not_found_world_def)
  have h4: "backend (flaky_world OtherData) (length (network (flaky_world OtherData)) + 1)
         = Resolved \<lparr>status = 200, data = OtherData\<rparr>"
    by (simp add: test_world_def empty_storage_def initialChatState_def query_config_def flaky_world_def not_found_world_def)
  have h5: "backend not_found_world (length (network not_found_world))
         = axios_status_error \<lparr>status = 404, data = ErrorData ''Not Found''\<rparr>"
    by (simp add: test_world_def empty_storage_def initialChatState_def query_config_def flaky_world_def not_found_world_def)
  have n: "network test_world = []" "timers test_world = []"
    "network (flaky_world OtherData) = []" "timers (flaky_world OtherData) = []"
    "network not_found_world = []" "timers not_found_world = []"
    by (simp_all add: test_world_def empty_storage_def initialChatState_def query_config_def flaky_world_def not_found_world_def)
  note T = retry_budget [of query_config test_world 1 "flaky_world OtherData"
        "\<lparr>status = 200, data = OtherData\<rparr>" not_found_world "ErrorData ''Not Found''"]
  have p1: "\<exists>e w' rs. apiClient query_config test_world = (Throws (ErrorInstance e), w')
      \<and> message e = ''Network Error'' \<and> network w' = network test_world @ rs \<and> length rs = 1 + 2
      \<and> list_all (same_request query_config) rs \<and> timers w' = timers test_world @ [1000, 1000]"
    using T h1 h2 by blast
  have p2: "\<exists>v' rs. apiClient query_config (flaky_world OtherData)
        = (Normal \<lparr>status = 200, data = OtherData\<rparr>, v')
      \<and> network v' = network (flaky_world OtherData) @ rs \<and> length rs = 1 + 1
      \<and> list_all (same_request query_config) rs
      \<and> timers v' = timers (flaky_world OtherData) @ replicate 1 1000"
    using T h1 h3 h4 by (simp add: MAX_RETRIES_def RETRY_DELAY_def)
  have p3: "\<exists>e u' c1. apiClient query_config not_found_world = (Throws (ErrorInstance e), u')
      \<and> error_response e = Some \<lparr>status = 404, data = ErrorData ''Not Found''\<rparr>
      \<and> network u' = network not_found_world @ [c1] \<and> same_request query_config c1
      \<and> timers u' = timers not_found_world"
    using T h5 by blast
  have q1: "rejection_message (fst (apiClient query_config test_world)) = Some ''Network Error''
      \<and> length (network (snd (apiClient query_config test_world))) = 3
      \<and> timers (snd (apiClient query_config test_world)) = [1000, 1000]"
    using p1 by (auto simp: n rejection_message_def)
  have q2: "fst (apiClient query_config (flaky_world OtherData)) = Normal \<lparr>status = 200, data = OtherData\<rparr>
      \<and> length (network (snd (apiClient query_config (flaky_world OtherData)))) = 2
      \<and> timers (snd (apiClient query_config (flaky_world OtherData))) = [1000]"
    using p2 by (auto simp: n)
  have q3: "rejection_status (fst (apiClient query_config not_found_world)) = Some 404
      \<and> length (network (snd (apiClient query_config not_found_world))) = 1
      \<and> timers (snd (apiClient query_config not_found_world)) = []"
    using p3 by (auto simp: n rejection_status_def)
  have g: "backend test_world 0 = axios_network_error"
    "backend (flaky_world OtherData) 0 = axios_network_error"
    "backend (flaky_world OtherData) 1 = Resolved \<lparr>status = 200, data = OtherData\<rparr>"
    "backend not_found_world 0 = axios_status_error \<lparr>status = 404, data = ErrorData ''Not Found''\<rparr>"
    by (simp_all add: test_world_def empty_storage_def initialChatState_def query_config_def flaky_world_def not_found_world_def)
  show ?thesis using h1 g q1 q2 q3 by simp
qed

subsection \<open>Server errors\<close>

text \<open>
  C1 (as amended). A request answered with a server error status (500 or more) is not
  retried: the error axios raises for it is not classified as retryable, the request is
  dispatched once, no delay is waited, the error is logged on the console and rejected to
  the caller. The retry budget applies to network and timeout failures only.
\<close>

theorem server_error_not_retried:
  assumes "backend w (length (network w)) = axios_status_error r" and "500 \<le> status r"
  shows "\<not> getRetryableError (ErrorInstance
            \<lparr>message = ''Request failed with status code '' @ string_of_nat (status r),
             error_response = Some r, config = cfg\<rparr>)
     \<and> (\<exists>e w' c1. apiClient c w = (Throws (ErrorInstance e), w')
           \<and> message e = ''Request failed with status code '' @ string_of_nat (status r)
           \<and> error_response e = Some r
           \<and> network w' = network w @ [c1] \<and> same_request c c1 \<and> timers w' = timers w
           \<and> console w' = console w @
                [ConsoleError ''API Error:''
                   (''Request failed with status code '' @ string_of_nat (status r))])"
proof -
  obtain cfg' w' c1 where s: "apiClient c w
       = (Throws (ErrorInstance \<lparr>message = ''Request failed with status code '' @ string_of_nat (status r),
            error_response = Some r, config = Some cfg'\<rparr>), w')"
     "network w' = network w @ [c1]" "same_request c c1" "timers w' = timers w"
     "console w' = console w @
          (if 500 \<le> status r
           then [ConsoleError ''API Error:'' (''Request failed with status code '' @ string_of_nat (status r))]
           else [])"
    using status_error_surfaced [OF assms(1), of c] by blast
  have "console w' = console w @
      [ConsoleError ''API Error:'' (''Request failed with status code '' @ string_of_nat (status r))]"
    using s(5) assms(2) by simp
  then have "\<exists>e w' c1. apiClient c w = (Throws (ErrorInstance e), w')
           \<and> message e = ''Request failed with status code '' @ string_of_nat (status r)
           \<and> error_response e = Some r
           \<and> network w' = network w @ [c1] \<and> same_request c c1 \<and> timers w' = timers w
           \<and> console w' = console w @
                [ConsoleError ''API Error:''
                   (''Request failed with status code '' @ string_of_nat (status r))]"
    using s(1,2,3,4) by force
  then show ?thesis using status_message_not_retryable by blast
qed

theorem server_error_not_retried_witness:
  "backend server_error_world (length (network server_error_world))
     = axios_status_error \<lparr>status = 500, data = ErrorData ''Internal Server Error''\<rparr>
   \<and> (500::nat) \<le> status \<lparr>status = 500, data = ErrorData ''Internal Server Error''\<rparr>
   \<and> rejection_status (fst (apiClient query_config server_error_world)) = Some 500
   \<and> length (network (snd (apiClient query_config server_error_world))) = 1
   \<and> timers (snd (apiClient query_config server_error_world)) = []
   \<and> length (console (snd (apiClient query_config server_error_world))) = 1"
proof -
  let ?r = "\<lparr>status = 500, data = ErrorData ''Internal Server Error''\<rparr>"
  have h: "backend server_error_world (length (network server_error_world)) = axios_status_error ?r"
    "(500::nat) \<le> status ?r"
    by (simp_all add: test_world_def empty_storage_def initialChatState_def query_config_def server_error_world_def)
  have n: "network server_error_world = []" "timers server_error_world = []"
    "console server_error_world = []"
    by (simp_all add: test_world_def empty_storage_def initialChatState_def query_config_def server_error_world_def)
  have "\<exists>e w' c1. apiClient query_config server_error_world = (Throws (ErrorInstance e), w')
           \<and> error_response e = Some ?r
           \<and> network w' = network server_error_world @ [c1] \<and> timers w' = timers server_error_world
           \<and> console w' = console server_error_world @
                [ConsoleError ''API Error:''
                   (''Request failed with status code '' @ string_of_nat (status ?r))]"
    using server_error_not_retried [OF h, of None query_config] by blast
  then show ?thesis using h by (auto simp: n rejection_status_def)
qed

text \<open>
  C1 as stated fails: with a backend that answers 500 the request is dispatched once and
  no delay is waited, while with an unreachable network the same request is dispatched
  three times with two delays.
\<close>

theorem server_error_retry_counterexample:
  "rejection_status (fst (apiClient query_config server_error_world)) = Some 500
   \<and> length (network (snd (apiClient query_config server_error_world))) = 1
   \<and> timers (snd (apiClient query_config server_error_world)) = []
   \<and> length (network (snd (apiClient query_config test_world))) = 3
   \<and> timers (snd (apiClient query_config test_world)) = [1000, 1000]"
proof -
  let ?r = "\<lparr>status = 500, data = ErrorData ''Internal Server Error''\<rparr>"
  have h: "backend server_error_world (length (network server_error_world)) = axios_status_error ?r"
    by (simp add: test_world_def empty_storage_def initialChatState_def query_config_def server_error_world_def)
  have n: "network server_error_world = []" "timers server_error_world = []"
    "network test_world = []" "timers test_world = []"
    by (simp_all add: test_world_def empty_storage_def initialChatState_def query_config_def server_error_world_def)
  have a: "rejection_status (fst (apiClient query_config server_error_world)) = Some 500
   \<and> length (network (snd (apiClient query_config server_error_world))) = 1
   \<and> timers (snd (apiClient query_config server_error_world)) = []"
    using status_error_surfaced [OF h, of query_config] by (auto simp: n rejection_status_def)
  have fresh: "retryCount query_config = None" by (simp add: test_world_def empty_storage_def initialChatState_def query_config_def server_error_world_def)
  have "\<forall>j\<le>MAX_RETRIES. retryable_rejection (backend test_world (length (network test_world) + j))"
    using network_error_retryable by (simp add: test_world_def empty_storage_def initialChatState_def query_config_def server_error_world_def)
  from retries_exhausted [OF fresh this]
  have b: "length (network (snd (apiClient query_config test_world))) = 3
   \<and> timers (snd (apiClient query_config test_world)) = [1000, 1000]"
    by (auto simp: n MAX_RETRIES_def RETRY_DELAY_def numeral_2_eq_2)
  show ?thesis using a b by simp
qed

subsection \<open>Every call of the gateway\<close>

lemma apiClient_summary:
  "\<exists>res w' sid w0 c1 rs. apiClient c w = (res, w') \<and> session_frame w w'
     \<and> getSessionId w = (Normal sid, w0) \<and> request_interceptor c w = (Normal c1, w0)
     \<and> headers c1 ''X-Session-ID'' = Some sid \<and> same_request c c1
     \<and> network w' = network w @ c1 # rs \<and> list_all (same_request c) rs"
proof (induction "MAX_RETRIES - retry_count c" arbitrary: c w rule: less_induct)
  case less
  obtain sid w0 c1 where ri: "getSessionId w = (Normal sid, w0)"
      "request_interceptor c w = (Normal c1, w0)" "same_request c c1"
      "retryCount c1 = retryCount c" "headers c1 ''X-Session-ID'' = Some sid"
      "session_frame w w0" "quiet_frame w w0"
    using request_interceptor_result [of w c] by blast
  note att = apiClient_attempt [OF ri(2) ri(7) ri(6) ri(4)]
  let ?w1 = "w0\<lparr>network := network w @ [c1]\<rparr>"
  have f1: "session_frame w ?w1" using ri(6) by (simp add: session_frame_def)
  have fin: "\<exists>res w' sid w0 c1 rs. apiClient c w = (res, w') \<and> session_frame w w'
     \<and> getSessionId w = (Normal sid, w0) \<and> request_interceptor c w = (Normal c1, w0)
     \<and> headers c1 ''X-Session-ID'' = Some sid \<and> same_request c c1
     \<and> network w' = network w @ c1 # rs \<and> list_all (same_request c) rs"
    if "apiClient c w = (res, w')" "session_frame w w'" "network w' = network w @ c1 # rs"
      "list_all (same_request c) rs"
    for res w' rs
  proof (intro exI conjI)
    show "apiClient c w = (res, w')" by (rule that(1))
    show "session_frame w w'" by (rule that(2))
    show "getSessionId w = (Normal sid, w0)" by (rule ri(1))
    show "request_interceptor c w = (Normal c1, w0)" by (rule ri(2))
    show "headers c1 ''X-Session-ID'' = Some sid" by (rule ri(5))
    show "same_request c c1" by (rule ri(3))
    show "network w' = network w @ c1 # rs" by (rule that(3))
    show "list_all (same_request c) rs" by (rule that(4))
  qed
  show ?case
  proof (cases "backend w (length (network w))")
    case (Resolved r)
    then have e: "apiClient c w = (Normal r, ?w1)" using att by simp
    have n: "network ?w1 = network w @ c1 # []" by simp
    have "list_all (same_request c) []" by simp
    with e f1 n show ?thesis by (rule fin)
  next
    case (Rejected msg resp wc)
    show ?thesis
    proof (cases "wc \<and> getRetryableError (ErrorInstance \<lparr>message = msg, error_response = resp, config = Some c1\<rparr>)
                 \<and> retry_count c < MAX_RETRIES")
      case False
      note no = this
      have "\<exists>res w'. apiClient c w = (res, w') \<and> session_frame w w'
          \<and> network w' = network w @ c1 # []"
      proof (cases wc)
        case False
        then have "apiClient c w
            = (Throws (ErrorInstance \<lparr>message = msg, error_response = resp, config = None\<rparr>), ?w1)"
          using att Rejected by simp
        then show ?thesis using f1 by simp
      next
        case True
        then have nr: "\<not> (getRetryableError (ErrorInstance \<lparr>message = msg, error_response = resp, config = Some c1\<rparr>)
                 \<and> retry_count c < MAX_RETRIES)"
          using no by simp
        let ?e = "\<lparr>message = msg, error_response = resp, config = Some c1\<rparr>"
        let ?wl = "w0\<lparr>network := network w @ [c1],
                      console := console w @ [ConsoleError ''API Error:'' (formatApiError (ErrorInstance ?e))]\<rparr>"
        have fl: "session_frame w ?wl" using ri(6) by (simp add: session_frame_def)
        have "snd (apiClient c w) = (if should_log ?e then ?wl else ?w1)"
          using att Rejected True nr by simp
        then have "session_frame w (snd (apiClient c w))
            \<and> network (snd (apiClient c w)) = network w @ c1 # []"
          using f1 fl by simp
        then show ?thesis by (metis prod.collapse)
      qed
      then obtain res w' where r: "apiClient c w = (res, w')" "session_frame w w'"
          "network w' = network w @ c1 # []"
        by (elim exE conjE)
      have "list_all (same_request c) []" by simp
      with r show ?thesis by (rule fin)
    next
      case True
      let ?c2 = "c1\<lparr>retryCount := Some (retry_count c + 1)\<rparr>"
      let ?w2 = "w0\<lparr>network := network w @ [c1], timers := timers w @ [RETRY_DELAY]\<rparr>"
      have step: "apiClient c w = apiClient ?c2 ?w2" using att Rejected True by simp
      have rc2: "retry_count ?c2 = retry_count c + 1" by (simp add: retry_count_def)
      have "retry_count c < MAX_RETRIES" using True by simp
      then have "MAX_RETRIES - (retry_count c + 1) < MAX_RETRIES - retry_count c" by arith
      then have "MAX_RETRIES - retry_count ?c2 < MAX_RETRIES - retry_count c"
        by (simp only: rc2)
      from less [OF this, of ?w2]
      obtain res w' c1' rs where ih: "apiClient ?c2 ?w2 = (res, w')" "session_frame ?w2 w'"
          "same_request ?c2 c1'" "network w' = network ?w2 @ c1' # rs" "list_all (same_request ?c2) rs"
        by (elim exE conjE)
      have sr_eq: "same_request ?c2 = same_request c"
        using ri(3) by (auto simp: same_request_def fun_eq_iff)
      have f2: "session_frame w ?w2" using ri(6) by (simp add: session_frame_def)
      have e: "apiClient c w = (res, w')" using step ih(1) by simp
      have fr: "session_frame w w'" using f2 ih(2) by (rule session_frame_trans)
      have n: "network w' = network w @ c1 # (c1' # rs)" using ih(4) by simp
      have "list_all (same_request c) (c1' # rs)" using ih(3,5) sr_eq by simp
      with e fr n show ?thesis by (rule fin)
    qed
  qed
qed

subsection \<open>The send-text service\<close>

lemma chunk_to_source_spec: "chunk_to_source chunk = spec_citation chunk"
  by (simp add: chunk_to_source_def spec_citation_def usable_entry_def metadata_get_def js_or_def
      split: option.splits)

lemma string_of_int_500: "string_of_int 500 = ''500''"
  by (simp add: string_of_int_def string_of_nat.simps digit_char_def)

text \<open>
  C3. When the query call succeeds with a response body, sendMessage returns an assistant
  message whose content is the response text and whose citations are the retrieved
  chunks, one for one and in order, each mapped as the specification says: the title is
  the usable (present and truthy) metadata title, else the usable metadata filename, else
  \<open>Document\<close> followed by the asset id; the url is the usable metadata url, else the usable
  metadata source, else the empty string; the relevance is the similarity score. A chunk
  with empty metadata and asset id 500 gives the title \<open>Document 500\<close> and the empty url.
\<close>

theorem sendMessage_maps_response:
  assumes "apiClient_post ''/rag/query'' (RagQueryBody \<lparr>project_id = PROJECT_ID w, query = q\<rparr>)
             [] Map.empty w = (Normal resp, w1)"
    and "data resp = RagQueryData rag"
  shows "\<exists>m w'. chatService_sendMessage q sid w = (Normal m, w')
     \<and> role m = assistant \<and> content m = response rag
     \<and> sources m = Some (map spec_citation (retrieved_chunks rag))
     \<and> length (map spec_citation (retrieved_chunks rag)) = length (retrieved_chunks rag)
     \<and> map relevance_score (map spec_citation (retrieved_chunks rag))
         = map similarity_score (retrieved_chunks rag)
     \<and> chunk_to_source \<lparr>chunk_id = ci, asset_id = 500, chunk_content = cc, similarity_score = sc,
          metadata = Some Map.empty\<rparr>
         = \<lparr>title = JString ''Document 500'', source_url = JString [], relevance_score = sc\<rparr>"
proof -
  have cs: "chunk_to_source = spec_citation" using chunk_to_source_spec by (simp add: fun_eq_iff)
  have "\<exists>m w'. chatService_sendMessage q sid w = (Normal m, w')
     \<and> role m = assistant \<and> content m = response rag
     \<and> sources m = Some (map spec_citation (retrieved_chunks rag))"
    using assms unfolding chatService_sendMessage_def
    by (simp add: bind_def lift_def return_def Date_now_def Math_random_def cs)
  moreover have "map relevance_score (map spec_citation (retrieved_chunks rag))
         = map similarity_score (retrieved_chunks rag)"
    by (simp add: spec_citation_def)
  moreover have "chunk_to_source \<lparr>chunk_id = ci, asset_id = 500, chunk_content = cc, similarity_score = sc,
          metadata = Some Map.empty\<rparr>
         = \<lparr>title = JString ''Document 500'', source_url = JString [], relevance_score = sc\<rparr>"
    by (simp add: chunk_to_source_def metadata_get_def js_or_def string_of_int_500)
  ultimately show ?thesis by simp
qed

theorem sendMessage_maps_response_witness:
  "normal_value (fst (apiClient_post ''/rag/query''
       (RagQueryBody \<lparr>project_id = PROJECT_ID rag_world, query = ''What is your return policy?''\<rparr>)
       [] Map.empty rag_world)) = Some (case backend rag_world 0 of Resolved r \<Rightarrow> r)
   \<and> map_option role (normal_value (fst (chatService_sendMessage ''What is your return policy?'' ''s-1'' rag_world)))
       = Some assistant
   \<and> map_option content (normal_value (fst (chatService_sendMessage ''What is your return policy?'' ''s-1'' rag_world)))
       = Some ''Our policy allows 30-day returns.''
   \<and> map_option sources (normal_value (fst (chatService_sendMessage ''What is your return policy?'' ''s-1'' rag_world)))
       = Some (Some [\<lparr>title = JString ''Return Policy'', source_url = JString ''https://x/returns'',
                      relevance_score = 95 / 100\<rparr>])"
proof -
  let ?rag = "\<lparr>retrieved_chunks =
        [\<lparr>chunk_id = 1, asset_id = 101, chunk_content = ''Returns are accepted for 30 days.'',
          similarity_score = 95 / 100,
          metadata = Some [''title'' \<mapsto> JString ''Return Policy'',
                           ''url'' \<mapsto> JString ''https://x/returns'']\<rparr>],
      response = ''Our policy allows 30-day returns.''\<rparr>"
  let ?r = "\<lparr>status = 200, data = RagQueryData ?rag\<rparr>"
  have b: "backend rag_world (length (network rag_world)) = Resolved ?r"
    by (simp add: test_world_def empty_storage_def initialChatState_def rag_world_def)
  have b0: "backend rag_world 0 = Resolved ?r"
    by (simp add: test_world_def empty_storage_def initialChatState_def rag_world_def)
  obtain w1 where post: "apiClient_post ''/rag/query''
       (RagQueryBody \<lparr>project_id = PROJECT_ID rag_world, query = ''What is your return policy?''\<rparr>)
       [] Map.empty rag_world = (Normal ?r, w1)"
    unfolding apiClient_post_def using apiClient_final_resolved [OF b] by blast
  have d: "data ?r = RagQueryData ?rag" by simp
  obtain m w' where m: "chatService_sendMessage ''What is your return policy?'' ''s-1'' rag_world = (Normal m, w')"
      "role m = assistant" "content m = response ?rag"
      "sources m = Some (map spec_citation (retrieved_chunks ?rag))"
    using sendMessage_maps_response [OF post d, of "''s-1''"] by blast
  have "map spec_citation (retrieved_chunks ?rag)
      = [\<lparr>title = JString ''Return Policy'', source_url = JString ''https://x/returns'',
          relevance_score = 95 / 100\<rparr>]"
    by (simp add: spec_citation_def usable_entry_def)
  then show ?thesis using m post b0 by (simp add: normal_value_def)
qed

subsection \<open>The session id argument of sendMessage\<close>

lemma sendMessage_network:
  "network (snd (chatService_sendMessage q sid w))
     = network (snd (apiClient_post ''/rag/query''
         (RagQueryBody \<lparr>project_id = PROJECT_ID w, query = q\<rparr>) [] Map.empty w))"
  unfolding chatService_sendMessage_def
  by (simp add: bind_def lift_def return_def throw_def Date_now_def Math_random_def split_beta
      split: prod.splits completion.splits response_data.splits)

text \<open>
  C10. sendMessage does the same with any two session id arguments: the same result and
  the same world, hence the same requests. Every request it dispatches is a POST to
  /rag/query whose body holds the project id and the query only, and the first one
  carries, in the header X-Session-ID, the identifier that getSessionId returns.
\<close>

theorem sendMessage_ignores_sessionId:
  "chatService_sendMessage q s1 w = chatService_sendMessage q s2 w
   \<and> (\<exists>sid w0 rs. getSessionId w = (Normal sid, w0)
         \<and> network (snd (chatService_sendMessage q s1 w)) = network w @ rs \<and> rs \<noteq> []
         \<and> headers (hd rs) ''X-Session-ID'' = Some sid
         \<and> list_all (\<lambda>r. http_method r = POST \<and> url r = ''/rag/query''
               \<and> body r = RagQueryBody \<lparr>project_id = PROJECT_ID w, query = q\<rparr>) rs)"
proof -
  let ?c = "\<lparr>http_method = POST, url = ''/rag/query'',
     body = RagQueryBody \<lparr>project_id = PROJECT_ID w, query = q\<rparr>, params = [],
     headers = default_headers ++ Map.empty, retryCount = None\<rparr>"
  have same: "chatService_sendMessage q s1 w = chatService_sendMessage q s2 w"
    by (simp add: chatService_sendMessage_def)
  obtain res w' sid w0 c1 rs where sm: "apiClient ?c w = (res, w')"
      "getSessionId w = (Normal sid, w0)" "headers c1 ''X-Session-ID'' = Some sid"
      "same_request ?c c1" "network w' = network w @ c1 # rs" "list_all (same_request ?c) rs"
    using apiClient_summary [of ?c w] by blast
  have sr: "same_request ?c = (\<lambda>r. http_method r = POST \<and> url r = ''/rag/query''
               \<and> body r = RagQueryBody \<lparr>project_id = PROJECT_ID w, query = q\<rparr> \<and> params r = [])"
    by (simp add: same_request_def fun_eq_iff)
  have all: "list_all (\<lambda>r. http_method r = POST \<and> url r = ''/rag/query''
               \<and> body r = RagQueryBody \<lparr>project_id = PROJECT_ID w, query = q\<rparr>) (c1 # rs)"
    using sm(4,6) unfolding sr by (simp add: list_all_iff)
  have "network (snd (chatService_sendMessage q s1 w)) = network w @ c1 # rs"
    using sm(1,5) by (simp add: sendMessage_network apiClient_post_def)
  then show ?thesis using same sm(2,3) all by force
qed

subsection \<open>The upload flow\<close>

lemmas flow_defs = addMessage_def setLoading_def setError_def clearError_def dispatch_def

lemma system_message_eq:
  "system_message t w =
     (Normal \<lparr>msg_id = fst (generateUUID w), role = system, content = t,
        timestamp = clock_results w (clock_calls w), msg_status = None, sources = None,
        confidence_score = None\<rparr>,
      w\<lparr>random_calls := random_calls w + 31, clock_calls := clock_calls w + 1\<rparr>)"
  unfolding system_message_def
  by (simp add: bind_def lift_def return_def Date_now_def split_beta generateUUID_world)

lemma breadcrumb_eq:
  "bind (system_message t) (\<lambda>m. addMessage m) w =
     (Normal (),
      w\<lparr>random_calls := random_calls w + 31, clock_calls := clock_calls w + 1,
        chat := (chat w)\<lparr>messages := messages (chat w) @
          [\<lparr>msg_id = fst (generateUUID w), role = system, content = t,
            timestamp = clock_results w (clock_calls w), msg_status = None, sources = None,
            confidence_score = None\<rparr>]\<rparr>\<rparr>)"
  by (simp add: bind_def system_message_eq flow_defs)

lemma generateUUID_chat_update: "fst (generateUUID (w\<lparr>chat := c\<rparr>)) = fst (generateUUID w)"
  unfolding generateUUID_def by (rule replace_xy_random_only) simp_all

lemma upload_started_eq:
  "upload_started file w =
     w\<lparr>random_calls := random_calls w + 31, clock_calls := clock_calls w + 1,
       chat := (chat w)\<lparr>isLoading := True, error_slot := None,
         messages := messages (chat w) @
          [\<lparr>msg_id = fst (generateUUID w), role = system,
            content = ''Uploading '' @ name file @ ''...'',
            timestamp = clock_results w (clock_calls w), msg_status = None, sources = None,
            confidence_score = None\<rparr>]\<rparr>\<rparr>"
  unfolding upload_started_def
  by (simp add: bind_def system_message_eq flow_defs generateUUID_chat_update)

lemma processing_started_eq:
  "processing_started file w =
      w\<lparr>random_calls := random_calls w + 31, clock_calls := clock_calls w + 1,
        chat := (chat w)\<lparr>messages := messages (chat w) @
          [\<lparr>msg_id = fst (generateUUID w), role = system,
            content = ''File uploaded. Processing '' @ name file @ ''...'',
            timestamp = clock_results w (clock_calls w), msg_status = None, sources = None,
            confidence_score = None\<rparr>]\<rparr>\<rparr>"
  unfolding processing_started_def by (simp add: breadcrumb_eq)

lemma apiClient_post_frame: "session_frame w (snd (apiClient_post u b ps hs w))"
  unfolding apiClient_post_def
  using apiClient_summary [of "\<lparr>http_method = POST, url = u, body = b, params = ps,
       headers = default_headers ++ hs, retryCount = None\<rparr>" w]
  by auto

lemma uploadFile_frame: "session_frame w (snd (dataService_uploadFile file w))"
  unfolding dataService_uploadFile_def bind_def return_def
  using apiClient_post_frame [of w "''/data/upload/'' @ string_of_int DEFAULT_PROJECT_ID"
      "FormDataBody file" "[]" "[''Content-Type'' \<mapsto> ''multipart/form-data'']"]
  by (auto split: prod.splits completion.splits)

lemma processAsset_frame: "session_frame w (snd (dataService_processAsset a w))"
  unfolding dataService_processAsset_def bind_def return_def
  using apiClient_post_frame [of w "''/data/process/'' @ string_of_int DEFAULT_PROJECT_ID" NoBody
      "(case a of None \<Rightarrow> [] | Some x \<Rightarrow> [(''asset_id'', string_of_int x)])
              @ [(''chunk_size'', string_of_int 512), (''overlap_size'', string_of_int 50)]"
      Map.empty]
  by (auto split: prod.splits completion.splits)


lemma upload_flow_upload_fails:
  assumes up: "dataService_uploadFile file (upload_started file w) = (Throws e, w2)"
  shows "fst (handleUploadFile file w) = Normal ()"
    and "chat (snd (handleUploadFile file w)) =
      (chat (upload_started file w))\<lparr>error_slot := Some (message_or e ''Upload or processing failed''),
         isLoading := False,
         messages := messages (chat (upload_started file w)) @
           [\<lparr>msg_id = fst (generateUUID w2), role = system,
             content = ''Failed to process '' @ name file @ ''.'',
             timestamp = clock_results w2 (clock_calls w2), msg_status = None, sources = None,
             confidence_score = None\<rparr>]\<rparr>"
    and "network (snd (handleUploadFile file w)) = network w2"
proof -
  have c2: "chat w2 = chat (upload_started file w)"
    using uploadFile_frame [of "upload_started file w" "file"] up by (simp add: session_frame_def)
  note up' = up [unfolded upload_started_eq, simplified]
  show "fst (handleUploadFile file w) = Normal ()"
    unfolding handleUploadFile_def
    by (simp add: bind_def try_catch_def try_finally_def system_message_eq flow_defs
        generateUUID_chat_update up')
  show "chat (snd (handleUploadFile file w)) =
      (chat (upload_started file w))\<lparr>error_slot := Some (message_or e ''Upload or processing failed''),
         isLoading := False,
         messages := messages (chat (upload_started file w)) @
           [\<lparr>msg_id = fst (generateUUID w2), role = system,
             content = ''Failed to process '' @ name file @ ''.'',
             timestamp = clock_results w2 (clock_calls w2), msg_status = None, sources = None,
             confidence_score = None\<rparr>]\<rparr>"
    unfolding handleUploadFile_def
    by (simp add: bind_def try_catch_def try_finally_def system_message_eq flow_defs
        generateUUID_chat_update up' c2 [symmetric])
  show "network (snd (handleUploadFile file w)) = network w2"
    unfolding handleUploadFile_def
    by (simp add: bind_def try_catch_def try_finally_def system_message_eq flow_defs
        generateUUID_chat_update up')
qed


lemma upload_flow_process_fails:
  assumes up: "dataService_uploadFile file (upload_started file w) = (Normal d, w2)"
    and pr: "dataService_processAsset (asset_id_of d) (processing_started file w2) = (Throws e, w4)"
  shows "fst (handleUploadFile file w) = Normal ()"
    and "chat (snd (handleUploadFile file w)) =
      (chat (processing_started file w2))\<lparr>error_slot := Some (message_or e ''Upload or processing failed''),
         isLoading := False,
         messages := messages (chat (processing_started file w2)) @
           [\<lparr>msg_id = fst (generateUUID w4), role = system,
             content = ''Failed to process '' @ name file @ ''.'',
             timestamp = clock_results w4 (clock_calls w4), msg_status = None, sources = None,
             confidence_score = None\<rparr>]\<rparr>"
    and "network (snd (handleUploadFile file w)) = network w4"
proof -
  have c4: "chat w4 = chat (processing_started file w2)"
    using processAsset_frame [of "processing_started file w2" "asset_id_of d"] pr
    by (simp add: session_frame_def)
  note up' = up [unfolded upload_started_eq, simplified]
  note pr' = pr [unfolded processing_started_eq, simplified]
  show "fst (handleUploadFile file w) = Normal ()"
    unfolding handleUploadFile_def
    by (simp add: bind_def try_catch_def try_finally_def system_message_eq flow_defs
        generateUUID_chat_update up' pr')
  show "chat (snd (handleUploadFile file w)) =
      (chat (processing_started file w2))\<lparr>error_slot := Some (message_or e ''Upload or processing failed''),
         isLoading := False,
         messages := messages (chat (processing_started file w2)) @
           [\<lparr>msg_id = fst (generateUUID w4), role = system,
             content = ''Failed to process '' @ name file @ ''.'',
             timestamp = clock_results w4 (clock_calls w4), msg_status = None, sources = None,
             confidence_score = None\<rparr>]\<rparr>"
    unfolding handleUploadFile_def
    by (simp add: bind_def try_catch_def try_finally_def system_message_eq flow_defs
        generateUUID_chat_update up' pr' c4 [symmetric])
  show "network (snd (handleUploadFile file w)) = network w4"
    unfolding handleUploadFile_def
    by (simp add: bind_def try_catch_def try_finally_def system_message_eq flow_defs
        generateUUID_chat_update up' pr')
qed

lemma upload_flow_succeeds:
  assumes up: "dataService_uploadFile file (upload_started file w) = (Normal d, w2)"
    and pr: "dataService_processAsset (asset_id_of d) (processing_started file w2) = (Normal p, w4)"
  shows "fst (handleUploadFile file w) = Normal ()"
    and "chat (snd (handleUploadFile file w)) =
      (chat (processing_started file w2))\<lparr>isLoading := False,
         messages := messages (chat (processing_started file w2)) @
           [\<lparr>msg_id = fst (generateUUID w4), role = system,
             content = name file @ '' processed and indexed successfully.'',
             timestamp = clock_results w4 (clock_calls w4), msg_status = None, sources = None,
             confidence_score = None\<rparr>]\<rparr>"
proof -
  have c4: "chat w4 = chat (processing_started file w2)"
    using processAsset_frame [of "processing_started file w2" "asset_id_of d"] pr
    by (simp add: session_frame_def)
  note up' = up [unfolded upload_started_eq, simplified]
  note pr' = pr [unfolded processing_started_eq, simplified]
  show "fst (handleUploadFile file w) = Normal ()"
    unfolding handleUploadFile_def
    by (simp add: bind_def try_catch_def try_finally_def system_message_eq flow_defs
        generateUUID_chat_update up' pr')
  show "chat (snd (handleUploadFile file w)) =
      (chat (processing_started file w2))\<lparr>isLoading := False,
         messages := messages (chat (processing_started file w2)) @
           [\<lparr>msg_id = fst (generateUUID w4), role = system,
             content = name file @ '' processed and indexed successfully.'',
             timestamp = clock_results w4 (clock_calls w4), msg_status = None, sources = None,
             confidence_score = None\<rparr>]\<rparr>"
    unfolding handleUploadFile_def
    by (simp add: bind_def try_catch_def try_finally_def system_message_eq flow_defs
        generateUUID_chat_update up' pr' c4 [symmetric])
qed

lemma chat_after_upload:
  assumes "dataService_uploadFile file (upload_started file w) = (r, w2)"
  shows "chat w2 = chat (upload_started file w)"
  using uploadFile_frame [of "upload_started file w" "file"] assms by (simp add: session_frame_def)

text \<open>
  C4. The upload flow for a file named f always completes, keeps the earlier log, and ends
  with loading false. What it appends follows from the outcome of its two calls: when the
  upload call fails, the system messages \<open>Uploading f...\<close> and \<open>Failed to process f.\<close>, with
  the error slot set and no request made after the failed call; when the upload call
  succeeds and the process call fails, \<open>Uploading f...\<close>, \<open>File uploaded. Processing f...\<close>
  and \<open>Failed to process f.\<close>, with the error slot set; when both succeed, exactly
  \<open>Uploading f...\<close>, \<open>File uploaded. Processing f...\<close> and
  \<open>f processed and indexed successfully.\<close>, with the error slot empty.
\<close>

theorem upload_flow_log:
  "fst (handleUploadFile file w) = Normal ()
   \<and> log_kept w (snd (handleUploadFile file w))
   \<and> isLoading (chat (snd (handleUploadFile file w))) = False
   \<and> (case dataService_uploadFile file (upload_started file w) of
        (Throws e, w2) \<Rightarrow>
          appended w (snd (handleUploadFile file w))
            = [(system, ''Uploading '' @ name file @ ''...''),
               (system, ''Failed to process '' @ name file @ ''.'')]
          \<and> error_slot (chat (snd (handleUploadFile file w)))
            = Some (message_or e ''Upload or processing failed'')
          \<and> network (snd (handleUploadFile file w)) = network w2
      | (Normal d, w2) \<Rightarrow>
          (case dataService_processAsset (asset_id_of d) (processing_started file w2) of
             (Throws e, w4) \<Rightarrow>
               appended w (snd (handleUploadFile file w))
                 = [(system, ''Uploading '' @ name file @ ''...''),
                    (system, ''File uploaded. Processing '' @ name file @ ''...''),
                    (system, ''Failed to process '' @ name file @ ''.'')]
               \<and> error_slot (chat (snd (handleUploadFile file w)))
                 = Some (message_or e ''Upload or processing failed'')
               \<and> network (snd (handleUploadFile file w)) = network w4
           | (Normal p, w4) \<Rightarrow>
               appended w (snd (handleUploadFile file w))
                 = [(system, ''Uploading '' @ name file @ ''...''),
                    (system, ''File uploaded. Processing '' @ name file @ ''...''),
                    (system, name file @ '' processed and indexed successfully.'')]
               \<and> error_slot (chat (snd (handleUploadFile file w))) = None))"
proof -
  obtain r1 w2 where up: "dataService_uploadFile file (upload_started file w) = (r1, w2)"
    by force
  have c2: "chat w2 = chat (upload_started file w)" using up by (rule chat_after_upload)
  show ?thesis
  proof (cases r1)
    case (Throws e)
    note f = upload_flow_upload_fails [OF up [unfolded Throws]]
    show ?thesis
      using up Throws f
      by (simp add: upload_started_eq appended_def log_kept_def)
  next
    case (Normal d)
    note up' = up [unfolded Normal]
    obtain r2 w4 where pr: "dataService_processAsset (asset_id_of d) (processing_started file w2) = (r2, w4)"
      by force
    show ?thesis
    proof (cases r2)
      case (Throws e)
      note f = upload_flow_process_fails [OF up' pr [unfolded Throws]]
      show ?thesis
        using up Normal pr Throws f c2
        by (simp add: processing_started_eq upload_started_eq appended_def log_kept_def)
    next
      case (Normal p)
      note f = upload_flow_succeeds [OF up' pr [unfolded Normal]]
      show ?thesis
        using up \<open>r1 = Normal d\<close> pr Normal f c2
        by (simp add: processing_started_eq upload_started_eq appended_def log_kept_def)
    qed
  qed
qed


lemma post_resolved:
  assumes "backend w (length (network w)) = Resolved r"
  shows "\<exists>w' c1. apiClient_post u b ps hs w = (Normal r, w') \<and> network w' = network w @ [c1]
     \<and> session_frame w w'"
  unfolding apiClient_post_def using apiClient_final_resolved [OF assms] by blast

lemma post_status_error:
  assumes "backend w (length (network w)) = axios_status_error r"
  shows "\<exists>w' cfg c1. apiClient_post u b ps hs w
       = (Throws (ErrorInstance \<lparr>message = ''Request failed with status code '' @ string_of_nat (status r),
            error_response = Some r, config = Some cfg\<rparr>), w')
     \<and> network w' = network w @ [c1] \<and> session_frame w w'"
  unfolding apiClient_post_def using status_error_surfaced [OF assms] by blast

lemma uploadFile_resolved:
  assumes "backend w (length (network w)) = Resolved r"
  shows "\<exists>w' c1. dataService_uploadFile file w = (Normal (data r), w')
     \<and> network w' = network w @ [c1] \<and> session_frame w w'"
  using post_resolved [OF assms, of "''/data/upload/'' @ string_of_int DEFAULT_PROJECT_ID"
      "FormDataBody file" "[]" "[''Content-Type'' \<mapsto> ''multipart/form-data'']"]
  unfolding dataService_uploadFile_def bind_def return_def by auto


lemma processAsset_resolved:
  assumes "backend w (length (network w)) = Resolved r"
  shows "\<exists>w' c1. dataService_processAsset a w = (Normal (data r), w')
     \<and> network w' = network w @ [c1] \<and> session_frame w w'"
  using post_resolved [OF assms, of "''/data/process/'' @ string_of_int DEFAULT_PROJECT_ID" NoBody
      "(case a of None \<Rightarrow> [] | Some x \<Rightarrow> [(''asset_id'', string_of_int x)])
              @ [(''chunk_size'', string_of_int 512), (''overlap_size'', string_of_int 50)]"
      Map.empty]
  unfolding dataService_processAsset_def bind_def return_def by auto

lemma processAsset_status_error:
  assumes "backend w (length (network w)) = axios_status_error r"
  shows "\<exists>w' cfg. dataService_processAsset a w
       = (Throws (ErrorInstance \<lparr>message = ''Request failed with status code '' @ string_of_nat (status r),
            error_response = Some r, config = Some cfg\<rparr>), w')"
  using post_status_error [OF assms, of "''/data/process/'' @ string_of_int DEFAULT_PROJECT_ID" NoBody
      "(case a of None \<Rightarrow> [] | Some x \<Rightarrow> [(''asset_id'', string_of_int x)])
              @ [(''chunk_size'', string_of_int 512), (''overlap_size'', string_of_int 50)]"
      Map.empty]
  unfolding dataService_processAsset_def bind_def return_def by auto

lemma string_of_nat_500: "string_of_nat 500 = ''500''"
  by (simp add: string_of_nat.simps digit_char_def)


theorem upload_flow_log_witness:
  "appended upload_ok_world (snd (handleUploadFile doc_pdf upload_ok_world))
     = [(system, ''Uploading doc.pdf...''), (system, ''File uploaded. Processing doc.pdf...''),
        (system, ''doc.pdf processed and indexed successfully.'')]
   \<and> error_slot (chat (snd (handleUploadFile doc_pdf upload_ok_world))) = None
   \<and> isLoading (chat (snd (handleUploadFile doc_pdf upload_ok_world))) = False
   \<and> appended process_fails_world (snd (handleUploadFile doc_pdf process_fails_world))
     = [(system, ''Uploading doc.pdf...''), (system, ''File uploaded. Processing doc.pdf...''),
        (system, ''Failed to process doc.pdf.'')]
   \<and> error_slot (chat (snd (handleUploadFile doc_pdf process_fails_world)))
     = Some ''Request failed with status code 500''
   \<and> isLoading (chat (snd (handleUploadFile doc_pdf process_fails_world))) = False"
proof -
  let ?u = "\<lparr>status = 200, data = UploadData \<lparr>upload_asset_id = 42, filename = ''doc.pdf''\<rparr>\<rparr>"
  let ?p = "\<lparr>status = 200, data = ProcessData \<lparr>task_id = ''task-1'', process_status = ''queued''\<rparr>\<rparr>"
  let ?x = "\<lparr>status = 500, data = ErrorData ''Chunking failed''\<rparr>"
  have ok: "appended upload_ok_world (snd (handleUploadFile doc_pdf upload_ok_world))
     = [(system, ''Uploading doc.pdf...''), (system, ''File uploaded. Processing doc.pdf...''),
        (system, ''doc.pdf processed and indexed successfully.'')]
   \<and> error_slot (chat (snd (handleUploadFile doc_pdf upload_ok_world))) = None
   \<and> isLoading (chat (snd (handleUploadFile doc_pdf upload_ok_world))) = False"
  proof -
    let ?W = upload_ok_world
    have b1: "backend (upload_started doc_pdf ?W) (length (network (upload_started doc_pdf ?W))) = Resolved ?u"
      by (simp add: upload_started_eq) (simp add: test_world_def empty_storage_def initialChatState_def upload_ok_world_def process_fails_world_def)
    obtain w2 c1 where up: "dataService_uploadFile doc_pdf (upload_started doc_pdf ?W) = (Normal (data ?u), w2)"
        "network w2 = network (upload_started doc_pdf ?W) @ [c1]"
        "session_frame (upload_started doc_pdf ?W) w2"
      using uploadFile_resolved [OF b1] by blast
    have "backend w2 = backend ?W" "network w2 = [c1]"
      using up(2,3) by (simp_all add: session_frame_def upload_started_eq) (simp add: test_world_def empty_storage_def initialChatState_def upload_ok_world_def process_fails_world_def)
    then have b2: "backend (processing_started doc_pdf w2) (length (network (processing_started doc_pdf w2)))
        = Resolved ?p"
      by (simp add: processing_started_eq) (simp add: test_world_def empty_storage_def initialChatState_def upload_ok_world_def process_fails_world_def)
    obtain w4 where pr: "dataService_processAsset (asset_id_of (data ?u)) (processing_started doc_pdf w2)
        = (Normal (data ?p), w4)"
      using processAsset_resolved [OF b2] by blast
    show ?thesis
      using upload_flow_log [of doc_pdf ?W] up(1) pr by (simp add: doc_pdf_def)
  qed
  have bad: "appended process_fails_world (snd (handleUploadFile doc_pdf process_fails_world))
     = [(system, ''Uploading doc.pdf...''), (system, ''File uploaded. Processing doc.pdf...''),
        (system, ''Failed to process doc.pdf.'')]
   \<and> error_slot (chat (snd (handleUploadFile doc_pdf process_fails_world)))
     = Some ''Request failed with status code 500''
   \<and> isLoading (chat (snd (handleUploadFile doc_pdf process_fails_world))) = False"
  proof -
    let ?W = process_fails_world
    have b1: "backend (upload_started doc_pdf ?W) (length (network (upload_started doc_pdf ?W))) = Resolved ?u"
      by (simp add: upload_started_eq) (simp add: test_world_def empty_storage_def initialChatState_def upload_ok_world_def process_fails_world_def)
    obtain w2 c1 where up: "dataService_uploadFile doc_pdf (upload_started doc_pdf ?W) = (Normal (data ?u), w2)"
        "network w2 = network (upload_started doc_pdf ?W) @ [c1]"
        "session_frame (upload_started doc_pdf ?W) w2"
      using uploadFile_resolved [OF b1] by blast
    have "backend w2 = backend ?W" "network w2 = [c1]"
      using up(2,3) by (simp_all add: session_frame_def upload_started_eq) (simp add: test_world_def empty_storage_def initialChatState_def upload_ok_world_def process_fails_world_def)
    then have b2: "backend (processing_started doc_pdf w2) (length (network (processing_started doc_pdf w2)))
        = axios_status_error ?x"
      by (simp add: processing_started_eq) (simp add: test_world_def empty_storage_def initialChatState_def upload_ok_world_def process_fails_world_def)
    obtain w4 cfg where pr: "dataService_processAsset (asset_id_of (data ?u)) (processing_started doc_pdf w2)
        = (Throws (ErrorInstance \<lparr>message = ''Request failed with status code '' @ string_of_nat (status ?x),
            error_response = Some ?x, config = Some cfg\<rparr>), w4)"
      using processAsset_status_error [OF b2] by blast
    show ?thesis
      using upload_flow_log [of doc_pdf ?W] up(1) pr
      by (simp add: doc_pdf_def message_or_def string_of_nat_500)
  qed
  show ?thesis using ok bad by simp
qed

subsection \<open>Failures of the flows and the error slot\<close>














subsection \<open>Login\<close>

lemma set_token_eqs:
  "setCsrfToken t w = (Normal (),
     if setItem_throws (sessionStorage w) then w
     else w\<lparr>sessionStorage := (sessionStorage w)\<lparr>items := (items (sessionStorage w))(CSRF_KEY \<mapsto> t)\<rparr>\<rparr>)"
  "setAuthToken t w = (Normal (),
     if setItem_throws (localStorage w) then w
     else w\<lparr>localStorage := (localStorage w)\<lparr>items := (items (localStorage w))(TOKEN_KEY \<mapsto> t)\<rparr>\<rparr>)"
  "setUserId i w = (Normal (),
     if setItem_throws (localStorage w) then w
     else w\<lparr>localStorage := (localStorage w)\<lparr>items := (items (localStorage w))(USER_ID_KEY \<mapsto> string_of_int i)\<rparr>\<rparr>)"
  unfolding setCsrfToken_def setAuthToken_def setUserId_def js_defs storage_defs by simp_all

lemma fetchCsrfToken_failed:
  assumes "apiClient_get ''/auth/csrf'' w = (Throws e, w1)"
  shows "fetchCsrfToken w
     = (Normal None, w1\<lparr>console := console w1 @ [ConsoleWarn ''Failed to fetch CSRF token:'' e]\<rparr>)"
  using assms unfolding fetchCsrfToken_def
  by (simp add: try_catch_def bind_def return_def console_warn_def)

lemma fetchCsrfToken_fetched:
  assumes "apiClient_get ''/auth/csrf'' w = (Normal resp, w1)"
  shows "fetchCsrfToken w =
     (case csrf_token_of (data resp) of
        None \<Rightarrow> (Normal None, w1)
      | Some t \<Rightarrow>
          if t = [] then (Normal None, w1)
          else (Normal (Some t),
                if setItem_throws (sessionStorage w1) then w1
                else w1\<lparr>sessionStorage := (sessionStorage w1)\<lparr>items := (items (sessionStorage w1))(CSRF_KEY \<mapsto> t)\<rparr>\<rparr>))"
  using assms unfolding fetchCsrfToken_def
  by (simp add: try_catch_def bind_def return_def set_token_eqs Let_def split: option.splits)

lemma fetchCsrfToken_summary:
  "\<exists>v w2 c1 rs. fetchCsrfToken w = (Normal v, w2)
     \<and> network w2 = network w @ c1 # rs \<and> http_method c1 = GET \<and> url c1 = ''/auth/csrf''
     \<and> backend w2 = backend w \<and> localStorage w2 = localStorage w"
proof -
  let ?c = "\<lparr>http_method = GET, url = ''/auth/csrf'', body = NoBody, params = [],
       headers = default_headers, retryCount = None\<rparr>"
  obtain res w1 sid w0 c1 rs where sm: "apiClient ?c w = (res, w1)" "session_frame w w1"
      "same_request ?c c1" "network w1 = network w @ c1 # rs"
    using apiClient_summary [of ?c w] by blast
  have g: "apiClient_get ''/auth/csrf'' w = (res, w1)" using sm(1) by (simp add: apiClient_get_def)
  have c1: "http_method c1 = GET" "url c1 = ''/auth/csrf''"
    using sm(3) by (simp_all add: same_request_def)
  have fr: "backend w1 = backend w" "localStorage w1 = localStorage w"
    using sm(2) by (simp_all add: session_frame_def)
  show ?thesis
  proof (cases res)
    case (Throws e)
    then show ?thesis
      using fetchCsrfToken_failed [of w e w1] g sm(4) c1 fr by simp
  next
    case (Normal resp)
    have "\<exists>v w2. fetchCsrfToken w = (Normal v, w2) \<and> network w2 = network w1
        \<and> backend w2 = backend w1 \<and> localStorage w2 = localStorage w1"
      using fetchCsrfToken_fetched [of w resp w1] g Normal
      by (auto split: option.splits)
    then show ?thesis using sm(4) c1 fr by force
  qed
qed


lemma login_after_csrf:
  assumes "fetchCsrfToken w = (Normal v, w2)"
  shows "authService_login creds w =
     (case apiClient_post ''/auth/login'' (LoginBody creds) [] Map.empty w2 of
        (Throws e, w3) \<Rightarrow> (Throws e, w3)
      | (Normal resp, w3) \<Rightarrow>
          (case data resp of
             LoginData d \<Rightarrow>
               (Normal (data resp), snd (setUserId (user_id d) (snd (setAuthToken (access_token d) w3))))
           | _ \<Rightarrow> (Normal (data resp), snd (setAuthToken ''undefined'' w3))))"
  using assms unfolding authService_login_def
  by (simp add: bind_def return_def set_token_eqs
      split: prod.splits completion.splits response_data.splits)

lemma login_network:
  assumes "fetchCsrfToken w = (Normal v, w2)"
  shows "\<exists>c1 rs w0. network (snd (authService_login creds w)) = network w2 @ c1 # rs
     \<and> list_all (\<lambda>r. http_method r = POST \<and> url r = ''/auth/login'' \<and> body r = LoginBody creds) (c1 # rs)
     \<and> request_interceptor \<lparr>http_method = POST, url = ''/auth/login'', body = LoginBody creds, params = [],
           headers = default_headers ++ Map.empty, retryCount = None\<rparr> w2 = (Normal c1, w0)"
proof -
  let ?c = "\<lparr>http_method = POST, url = ''/auth/login'', body = LoginBody creds, params = [],
       headers = default_headers ++ Map.empty, retryCount = None\<rparr>"
  obtain res w3 sid w0 c1 rs where sm: "apiClient ?c w2 = (res, w3)"
      "request_interceptor ?c w2 = (Normal c1, w0)"
      "same_request ?c c1" "network w3 = network w2 @ c1 # rs" "list_all (same_request ?c) rs"
    using apiClient_summary [of ?c w2] by blast
  have p: "apiClient_post ''/auth/login'' (LoginBody creds) [] Map.empty w2 = (res, w3)"
    using sm(1) by (simp add: apiClient_post_def)
  have sr: "same_request ?c = (\<lambda>r. http_method r = POST \<and> url r = ''/auth/login''
               \<and> body r = LoginBody creds \<and> params r = [])"
    by (simp add: same_request_def fun_eq_iff)
  have all: "list_all (\<lambda>r. http_method r = POST \<and> url r = ''/auth/login'' \<and> body r = LoginBody creds) (c1 # rs)"
    using sm(3,5) unfolding sr by (simp add: list_all_iff)
  have "network (snd (authService_login creds w)) = network w3"
    using login_after_csrf [OF assms, of creds] p
    by (simp add: set_token_eqs split: completion.splits response_data.splits)
  then show ?thesis using sm(2,4) all by auto
qed

lemma last_of_all:
  assumes "list_all P (x # xs)"
  shows "P (last (ys @ x # xs))"
proof -
  have "last (ys @ x # xs) = last (x # xs)" by simp
  moreover have "last (x # xs) \<in> set (x # xs)" by (rule last_in_set) simp
  ultimately show ?thesis using assms by (simp add: list_all_iff)
qed


lemma login_requests:
  "\<exists>rs. network (snd (authService_login creds w)) = network w @ rs \<and> rs \<noteq> []
     \<and> http_method (hd rs) = GET \<and> url (hd rs) = ''/auth/csrf''
     \<and> http_method (last rs) = POST \<and> url (last rs) = ''/auth/login''
     \<and> body (last rs) = LoginBody creds"
proof -
  obtain v w2 c1 rs where f: "fetchCsrfToken w = (Normal v, w2)" "network w2 = network w @ c1 # rs"
      "http_method c1 = GET" "url c1 = ''/auth/csrf''"
    using fetchCsrfToken_summary [of w] by blast
  obtain c1' rs' where l: "network (snd (authService_login creds w)) = network w2 @ c1' # rs'"
      "list_all (\<lambda>r. http_method r = POST \<and> url r = ''/auth/login'' \<and> body r = LoginBody creds) (c1' # rs')"
    using login_network [OF f(1), of creds] by blast
  let ?rs = "(c1 # rs) @ c1' # rs'"
  have n: "network (snd (authService_login creds w)) = network w @ ?rs" using l(1) f(2) by simp
  have h: "hd ?rs = c1" by simp
  have la: "http_method (last ?rs) = POST \<and> url (last ?rs) = ''/auth/login''
      \<and> body (last ?rs) = LoginBody creds"
    using last_of_all [OF l(2), of "c1 # rs"] by simp
  show ?thesis
  proof (intro exI [of _ ?rs] conjI)
    show "network (snd (authService_login creds w)) = network w @ ?rs" by (rule n)
    show "?rs \<noteq> []" by simp
    show "http_method (hd ?rs) = GET" using f(3) h by simp
    show "url (hd ?rs) = ''/auth/csrf''" using f(4) h by simp
    show "http_method (last ?rs) = POST" using la by simp
    show "url (last ?rs) = ''/auth/login''" using la by simp
    show "body (last ?rs) = LoginBody creds" using la by simp
  qed
qed

lemma login_carries_csrf:
  assumes g: "apiClient_get ''/auth/csrf'' w = (Normal resp, w1)" and d: "data resp = CsrfData t"
    and t: "t \<noteq> []" and s: "\<not> setItem_throws (sessionStorage w1)"
    and r: "\<not> getItem_throws (sessionStorage w1)"
  shows "fst (fetchCsrfToken w) = Normal (Some t)"
    and "items (sessionStorage (snd (fetchCsrfToken w))) CSRF_KEY = Some t"
    and "headers (network (snd (authService_login creds w)) ! length (network w1)) ''X-CSRF-Token'' = Some t"
proof -
  let ?w2 = "w1\<lparr>sessionStorage := (sessionStorage w1)\<lparr>items := (items (sessionStorage w1))(CSRF_KEY \<mapsto> t)\<rparr>\<rparr>"
  have f: "fetchCsrfToken w = (Normal (Some t), ?w2)"
    using fetchCsrfToken_fetched [OF g] d t s by (simp add: csrf_token_of_def)
  show "fst (fetchCsrfToken w) = Normal (Some t)" using f by simp
  show "items (sessionStorage (snd (fetchCsrfToken w))) CSRF_KEY = Some t" using f by simp
  let ?c = "\<lparr>http_method = POST, url = ''/auth/login'', body = LoginBody creds, params = [],
       headers = default_headers ++ Map.empty, retryCount = None\<rparr>"
  obtain c1 rs w0 where l: "network (snd (authService_login creds w)) = network ?w2 @ c1 # rs"
      "request_interceptor ?c ?w2 = (Normal c1, w0)"
    using login_network [OF f, of creds] by blast
  have "headers c1 ''X-CSRF-Token'' = Some t"
    using request_interceptor_result [of ?w2 ?c] l(2) r t by auto
  moreover have "network (snd (authService_login creds w)) ! length (network w1) = c1"
    using l(1) by simp
  ultimately show "headers (network (snd (authService_login creds w)) ! length (network w1)) ''X-CSRF-Token'' = Some t"
    by simp
qed

lemma login_stores:
  assumes f: "apiClient_post ''/auth/login'' (LoginBody creds) [] Map.empty (snd (fetchCsrfToken w))
      = (Normal resp, w3)" and d: "data resp = LoginData d"
  shows "fst (authService_login creds w) = Normal (LoginData d)"
    and "snd (authService_login creds w) = snd (setUserId (user_id d) (snd (setAuthToken (access_token d) w3)))"
    and "\<not> setItem_throws (localStorage w3) \<Longrightarrow>
         items (localStorage (snd (authService_login creds w))) TOKEN_KEY = Some (access_token d)
         \<and> items (localStorage (snd (authService_login creds w))) USER_ID_KEY = Some (string_of_int (user_id d))"
proof -
  obtain v w2 where c: "fetchCsrfToken w = (Normal v, w2)"
    using fetchCsrfToken_summary [of w] by blast
  have p: "apiClient_post ''/auth/login'' (LoginBody creds) [] Map.empty w2 = (Normal resp, w3)"
    using f c by simp
  have e: "authService_login creds w
      = (Normal (LoginData d), snd (setUserId (user_id d) (snd (setAuthToken (access_token d) w3))))"
    using login_after_csrf [OF c, of creds] p d by simp
  show "fst (authService_login creds w) = Normal (LoginData d)" using e by simp
  show "snd (authService_login creds w) = snd (setUserId (user_id d) (snd (setAuthToken (access_token d) w3)))"
    using e by simp
  show "items (localStorage (snd (authService_login creds w))) TOKEN_KEY = Some (access_token d)
         \<and> items (localStorage (snd (authService_login creds w))) USER_ID_KEY = Some (string_of_int (user_id d))"
    if "\<not> setItem_throws (localStorage w3)"
    using e that by (simp add: set_token_eqs TOKEN_KEY_def USER_ID_KEY_def)
qed

lemma fetchCsrfToken_completes: "completes_normally fetchCsrfToken w"
  using fetchCsrfToken_summary [of w] by (auto simp: completes_normally_def)

text \<open>
  C6 (as amended). login first requests a CSRF token with GET /auth/csrf: that is the first
  request it dispatches, and the last one is the login call, POST /auth/login with the
  credentials. Fetching the token never throws: when the call fails, a warning is logged
  and login goes on; when it returns a non-empty token and sessionStorage works, the token
  is stored and the login request carries it in the header X-CSRF-Token. When the login
  call succeeds, login returns the body of the response and has passed its access token
  and user id to setAuthToken and setUserId, which store them when localStorage works.
\<close>

theorem login_flow:
  "completes_normally fetchCsrfToken w
   \<and> (\<exists>rs. network (snd (authService_login creds w)) = network w @ rs \<and> rs \<noteq> []
         \<and> http_method (hd rs) = GET \<and> url (hd rs) = ''/auth/csrf''
         \<and> http_method (last rs) = POST \<and> url (last rs) = ''/auth/login''
         \<and> body (last rs) = LoginBody creds)
   \<and> (apiClient_get ''/auth/csrf'' w = (Throws e, w1) \<longrightarrow>
         fetchCsrfToken w
           = (Normal None, w1\<lparr>console := console w1 @ [ConsoleWarn ''Failed to fetch CSRF token:'' e]\<rparr>))
   \<and> (apiClient_get ''/auth/csrf'' w = (Normal resp, w1') \<longrightarrow> data resp = CsrfData t \<longrightarrow> t \<noteq> [] \<longrightarrow>
        \<not> setItem_throws (sessionStorage w1') \<longrightarrow> \<not> getItem_throws (sessionStorage w1') \<longrightarrow>
         fst (fetchCsrfToken w) = Normal (Some t)
         \<and> items (sessionStorage (snd (fetchCsrfToken w))) CSRF_KEY = Some t
         \<and> headers (network (snd (authService_login creds w)) ! length (network w1')) ''X-CSRF-Token''
             = Some t)
   \<and> (apiClient_post ''/auth/login'' (LoginBody creds) [] Map.empty (snd (fetchCsrfToken w))
          = (Normal resp', w3) \<longrightarrow> data resp' = LoginData d \<longrightarrow>
         fst (authService_login creds w) = Normal (LoginData d)
         \<and> snd (authService_login creds w)
             = snd (setUserId (user_id d) (snd (setAuthToken (access_token d) w3)))
         \<and> (\<not> setItem_throws (localStorage w3) \<longrightarrow>
              items (localStorage (snd (authService_login creds w))) TOKEN_KEY = Some (access_token d)
              \<and> items (localStorage (snd (authService_login creds w))) USER_ID_KEY
                  = Some (string_of_int (user_id d))))"
proof (intro conjI impI)
  show "completes_normally fetchCsrfToken w" by (rule fetchCsrfToken_completes)
  show "\<exists>rs. network (snd (authService_login creds w)) = network w @ rs \<and> rs \<noteq> []
         \<and> http_method (hd rs) = GET \<and> url (hd rs) = ''/auth/csrf''
         \<and> http_method (last rs) = POST \<and> url (last rs) = ''/auth/login''
         \<and> body (last rs) = LoginBody creds"
    by (rule login_requests)
next
  assume "apiClient_get ''/auth/csrf'' w = (Throws e, w1)"
  then show "fetchCsrfToken w
           = (Normal None, w1\<lparr>console := console w1 @ [ConsoleWarn ''Failed to fetch CSRF token:'' e]\<rparr>)"
    by (rule fetchCsrfToken_failed)
next
  assume a: "apiClient_get ''/auth/csrf'' w = (Normal resp, w1')" "data resp = CsrfData t" "t \<noteq> []"
    "\<not> setItem_throws (sessionStorage w1')" "\<not> getItem_throws (sessionStorage w1')"
  show "fst (fetchCsrfToken w) = Normal (Some t)"
    using a by (rule login_carries_csrf(1))
  show "items (sessionStorage (snd (fetchCsrfToken w))) CSRF_KEY = Some t"
    using a by (rule login_carries_csrf(2))
  show "headers (network (snd (authService_login creds w)) ! length (network w1')) ''X-CSRF-Token'' = Some t"
    using a by (rule login_carries_csrf(3))
next
  assume a: "apiClient_post ''/auth/login'' (LoginBody creds) [] Map.empty (snd (fetchCsrfToken w))
          = (Normal resp', w3)" "data resp' = LoginData d"
  show "fst (authService_login creds w) = Normal (LoginData d)"
    using a by (rule login_stores(1))
  show "snd (authService_login creds w)
             = snd (setUserId (user_id d) (snd (setAuthToken (access_token d) w3)))"
    using a by (rule login_stores(2))
  show "items (localStorage (snd (authService_login creds w))) TOKEN_KEY = Some (access_token d)"
    if "\<not> setItem_throws (localStorage w3)"
    using login_stores(3) [OF a that] by simp
  show "items (localStorage (snd (authService_login creds w))) USER_ID_KEY
                  = Some (string_of_int (user_id d))"
    if "\<not> setItem_throws (localStorage w3)"
    using login_stores(3) [OF a that] by simp
qed


lemma string_of_int_7: "string_of_int 7 = ''7''"
  by (simp add: string_of_int_def string_of_nat.simps digit_char_def)

lemma csrf_login_world_run:
  "\<exists>c1 c2 w1 w3 resp'.
     apiClient_get ''/auth/csrf'' csrf_login_world = (Normal \<lparr>status = 200, data = CsrfData ''csrf-abc''\<rparr>, w1)
     \<and> network w1 = [c1] \<and> http_method c1 = GET \<and> url c1 = ''/auth/csrf''
     \<and> \<not> setItem_throws (sessionStorage w1) \<and> \<not> getItem_throws (sessionStorage w1)
     \<and> apiClient_post ''/auth/login'' (LoginBody credentials_alice) [] Map.empty
           (snd (fetchCsrfToken csrf_login_world)) = (Normal resp', w3)
     \<and> data resp' = LoginData login_alice
     \<and> network w3 = [c1, c2] \<and> http_method c2 = POST \<and> url c2 = ''/auth/login''
     \<and> \<not> setItem_throws (localStorage w3)"
proof -
  let ?W = csrf_login_world
  let ?g = "\<lparr>http_method = GET, url = ''/auth/csrf'', body = NoBody, params = [],
       headers = default_headers, retryCount = None\<rparr>"
  let ?p = "\<lparr>http_method = POST, url = ''/auth/login'', body = LoginBody credentials_alice, params = [],
       headers = default_headers ++ Map.empty, retryCount = None\<rparr>"
  let ?r = "\<lparr>status = 200, data = CsrfData ''csrf-abc''\<rparr>"
  let ?l = "\<lparr>status = 200, data = LoginData login_alice\<rparr>"
  have w: "network ?W = []" "\<not> setItem_throws (sessionStorage ?W)" "\<not> getItem_throws (sessionStorage ?W)"
    "\<not> setItem_throws (localStorage ?W)" "backend ?W 0 = Resolved ?r" "backend ?W 1 = Resolved ?l"
    by (simp_all add: csrf_login_world_def test_world_def empty_storage_def)
  have b0: "backend ?W (length (network ?W)) = Resolved ?r" using w by simp
  obtain c1 w1 where g: "apiClient ?g ?W = (Normal ?r, w1)" "network w1 = network ?W @ [c1]"
      "same_request ?g c1" "session_frame ?W w1"
    using apiClient_final_resolved [OF b0, of ?g] by blast
  have g': "apiClient_get ''/auth/csrf'' ?W = (Normal ?r, w1)" using g(1) by (simp add: apiClient_get_def)
  have s1: "\<not> setItem_throws (sessionStorage w1)" "\<not> getItem_throws (sessionStorage w1)"
    "backend w1 = backend ?W" "localStorage w1 = localStorage ?W"
    using g(4) w by (simp_all add: session_frame_def)
  let ?w2 = "w1\<lparr>sessionStorage := (sessionStorage w1)\<lparr>items := (items (sessionStorage w1))(CSRF_KEY \<mapsto> ''csrf-abc'')\<rparr>\<rparr>"
  have f: "fetchCsrfToken ?W = (Normal (Some ''csrf-abc''), ?w2)"
    using fetchCsrfToken_fetched [OF g'] s1(1) by (simp add: csrf_token_of_def)
  have b1: "backend ?w2 (length (network ?w2)) = Resolved ?l"
    using g(2) s1(3) w by simp
  obtain c2 w3 where p: "apiClient ?p ?w2 = (Normal ?l, w3)" "network w3 = network ?w2 @ [c2]"
      "same_request ?p c2" "session_frame ?w2 w3"
    using apiClient_final_resolved [OF b1, of ?p] by blast
  have p': "apiClient_post ''/auth/login'' (LoginBody credentials_alice) [] Map.empty
           (snd (fetchCsrfToken ?W)) = (Normal ?l, w3)"
    using p(1) f by (simp add: apiClient_post_def)
  have l3: "\<not> setItem_throws (localStorage w3)"
    using p(4) s1(4) w by (simp add: session_frame_def)
  have n3: "network w3 = [c1, c2]" using p(2) g(2) w by simp
  have m: "http_method c1 = GET" "url c1 = ''/auth/csrf''" "http_method c2 = POST" "url c2 = ''/auth/login''"
    using g(3) p(3) by (simp_all add: same_request_def)
  have n1: "network w1 = [c1]" using g(2) w by simp
  show ?thesis
    using g' n1 m s1(1,2) p' n3 l3 by (intro exI [of _ c1] exI [of _ c2] exI [of _ w1] exI [of _ w3] exI [of _ ?l]) simp
qed

lemma login_network_final:
  assumes "apiClient_post ''/auth/login'' (LoginBody creds) [] Map.empty (snd (fetchCsrfToken w))
      = (Normal resp, w3)"
  shows "network (snd (authService_login creds w)) = network w3"
proof -
  obtain v w2 where c: "fetchCsrfToken w = (Normal v, w2)"
    using fetchCsrfToken_summary [of w] by blast
  show ?thesis
    using login_after_csrf [OF c, of creds] assms c
    by (simp add: set_token_eqs split: response_data.splits)
qed


lemma csrf_down_world_run:
  "\<exists>e w1 w3 resp'.
     apiClient_get ''/auth/csrf'' csrf_down_world = (Throws e, w1) \<and> console w1 = []
     \<and> apiClient_post ''/auth/login'' (LoginBody credentials_alice) [] Map.empty
           (snd (fetchCsrfToken csrf_down_world)) = (Normal resp', w3)
     \<and> data resp' = LoginData login_alice"
proof -
  let ?D = csrf_down_world
  let ?g = "\<lparr>http_method = GET, url = ''/auth/csrf'', body = NoBody, params = [],
       headers = default_headers, retryCount = None\<rparr>"
  let ?p = "\<lparr>http_method = POST, url = ''/auth/login'', body = LoginBody credentials_alice, params = [],
       headers = default_headers ++ Map.empty, retryCount = None\<rparr>"
  let ?x = "\<lparr>status = 404, data = ErrorData ''Not Found''\<rparr>"
  let ?l = "\<lparr>status = 200, data = LoginData login_alice\<rparr>"
  have w: "network ?D = []" "console ?D = []" "backend ?D 0 = axios_status_error ?x"
    "backend ?D 1 = Resolved ?l"
    by (simp_all add: csrf_down_world_def test_world_def empty_storage_def)
  have b0: "backend ?D (length (network ?D)) = axios_status_error ?x" using w by simp
  obtain cfg w1 c1 where g: "apiClient ?g ?D
       = (Throws (ErrorInstance \<lparr>message = ''Request failed with status code '' @ string_of_nat (status ?x),
            error_response = Some ?x, config = Some cfg\<rparr>), w1)"
      "network w1 = network ?D @ [c1]"
      "console w1 = console ?D @
          (if 500 \<le> status ?x
           then [ConsoleError ''API Error:'' (''Request failed with status code '' @ string_of_nat (status ?x))]
           else [])"
      "session_frame ?D w1"
    using status_error_surfaced [OF b0, of ?g] by blast
  let ?e = "ErrorInstance \<lparr>message = ''Request failed with status code '' @ string_of_nat (status ?x),
            error_response = Some ?x, config = Some cfg\<rparr>"
  have g': "apiClient_get ''/auth/csrf'' ?D = (Throws ?e, w1)" using g(1) by (simp add: apiClient_get_def)
  have c1: "console w1 = []" using g(3) w by simp
  let ?w2 = "w1\<lparr>console := console w1 @ [ConsoleWarn ''Failed to fetch CSRF token:'' ?e]\<rparr>"
  have f: "fetchCsrfToken ?D = (Normal None, ?w2)" using g' by (rule fetchCsrfToken_failed)
  have "backend w1 = backend ?D" using g(4) by (simp add: session_frame_def)
  then have b1: "backend ?w2 (length (network ?w2)) = Resolved ?l"
    using g(2) w by simp
  obtain c2 w3 where p: "apiClient ?p ?w2 = (Normal ?l, w3)"
    using apiClient_final_resolved [OF b1, of ?p] by blast
  have p': "apiClient_post ''/auth/login'' (LoginBody credentials_alice) [] Map.empty
           (snd (fetchCsrfToken ?D)) = (Normal ?l, w3)"
    using p f by (simp add: apiClient_post_def)
  show ?thesis using g' c1 p' by (intro exI [of _ ?e] exI [of _ w1] exI [of _ w3] exI [of _ ?l]) simp
qed

theorem login_flow_witness:
  "fst (authService_login credentials_alice csrf_login_world) = Normal (LoginData login_alice)
   \<and> http_method (hd (network (snd (authService_login credentials_alice csrf_login_world)))) = GET
   \<and> url (hd (network (snd (authService_login credentials_alice csrf_login_world)))) = ''/auth/csrf''
   \<and> headers (network (snd (authService_login credentials_alice csrf_login_world)) ! 1) ''X-CSRF-Token''
       = Some ''csrf-abc''
   \<and> items (sessionStorage (snd (fetchCsrfToken csrf_login_world))) CSRF_KEY = Some ''csrf-abc''
   \<and> items (localStorage (snd (authService_login credentials_alice csrf_login_world))) TOKEN_KEY
       = Some ''jwt-token''
   \<and> items (localStorage (snd (authService_login credentials_alice csrf_login_world))) USER_ID_KEY
       = Some ''7''
   \<and> fst (fetchCsrfToken csrf_down_world) = Normal None
   \<and> length (console (snd (fetchCsrfToken csrf_down_world))) = 1
   \<and> fst (authService_login credentials_alice csrf_down_world) = Normal (LoginData login_alice)"
proof -
  let ?W = csrf_login_world
  let ?D = csrf_down_world
  let ?r = "\<lparr>status = 200, data = CsrfData ''csrf-abc''\<rparr>"
  obtain c1 c2 w1 w3 resp' where run:
      "apiClient_get ''/auth/csrf'' ?W = (Normal ?r, w1)" "network w1 = [c1]"
      "\<not> setItem_throws (sessionStorage w1)" "\<not> getItem_throws (sessionStorage w1)"
      "apiClient_post ''/auth/login'' (LoginBody credentials_alice) [] Map.empty
           (snd (fetchCsrfToken ?W)) = (Normal resp', w3)"
      "data resp' = LoginData login_alice" "\<not> setItem_throws (localStorage w3)"
    using csrf_login_world_run by blast
  note T = login_flow [where w = ?W and creds = credentials_alice and e = OtherValue
      and ?w1.0 = ?W and resp = ?r and w1' = w1
      and t = "''csrf-abc''" and resp' = resp' and ?w3.0 = w3 and d = login_alice]
  have nW: "network ?W = []" by (simp add: csrf_login_world_def test_world_def)
  have a: "\<exists>rs. network (snd (authService_login credentials_alice ?W)) = network ?W @ rs \<and> rs \<noteq> []
         \<and> http_method (hd rs) = GET \<and> url (hd rs) = ''/auth/csrf''"
    using T by blast
  have a': "http_method (hd (network (snd (authService_login credentials_alice ?W)))) = GET
      \<and> url (hd (network (snd (authService_login credentials_alice ?W)))) = ''/auth/csrf''"
    using a nW by auto
  have b: "fst (fetchCsrfToken ?W) = Normal (Some ''csrf-abc'')
         \<and> items (sessionStorage (snd (fetchCsrfToken ?W))) CSRF_KEY = Some ''csrf-abc''
         \<and> headers (network (snd (authService_login credentials_alice ?W)) ! length (network w1)) ''X-CSRF-Token''
             = Some ''csrf-abc''"
    by (rule T [THEN conjunct2, THEN conjunct2, THEN conjunct2, THEN conjunct1, rule_format, OF run(1)])
       (simp_all add: run(3,4))
  have c: "fst (authService_login credentials_alice ?W) = Normal (LoginData login_alice)
      \<and> items (localStorage (snd (authService_login credentials_alice ?W))) TOKEN_KEY = Some (access_token login_alice)
      \<and> items (localStorage (snd (authService_login credentials_alice ?W))) USER_ID_KEY
                  = Some (string_of_int (user_id login_alice))"
    using T [THEN conjunct2, THEN conjunct2, THEN conjunct2, THEN conjunct2, rule_format, OF run(5,6)] run(7)
    by blast
  obtain e v1 v3 resp'' where down:
      "apiClient_get ''/auth/csrf'' ?D = (Throws e, v1)" "console v1 = []"
      "apiClient_post ''/auth/login'' (LoginBody credentials_alice) [] Map.empty
           (snd (fetchCsrfToken ?D)) = (Normal resp'', v3)"
      "data resp'' = LoginData login_alice"
    using csrf_down_world_run by blast
  note U = login_flow [where w = ?D and creds = credentials_alice and e = e and ?w1.0 = v1
      and resp = ?r and w1' = ?D and t = "[]"
      and resp' = resp'' and ?w3.0 = v3 and d = login_alice]
  have d: "fetchCsrfToken ?D
           = (Normal None, v1\<lparr>console := console v1 @ [ConsoleWarn ''Failed to fetch CSRF token:'' e]\<rparr>)"
    using U down(1) by blast
  have d': "fst (fetchCsrfToken ?D) = Normal None \<and> length (console (snd (fetchCsrfToken ?D))) = 1"
    using d down(2) by simp
  have e: "fst (authService_login credentials_alice ?D) = Normal (LoginData login_alice)"
    using U [THEN conjunct2, THEN conjunct2, THEN conjunct2, THEN conjunct2, rule_format, OF down(3,4)]
    by blast
  show ?thesis
    using a' b c d' e run(2) by (simp add: login_alice_def string_of_int_7)
qed

text \<open>
  C6 as stated fails: the requests login dispatches are GET /auth/csrf and POST
  /auth/login; none is a POST to /auth/csrf.
\<close>

theorem login_csrf_method_counterexample:
  "map (\<lambda>r. (http_method r, url r))
      (network (snd (authService_login credentials_alice csrf_login_world)))
     = [(GET, ''/auth/csrf''), (POST, ''/auth/login'')]"
proof -
  obtain c1 c2 w3 resp' where run:
      "apiClient_post ''/auth/login'' (LoginBody credentials_alice) [] Map.empty
           (snd (fetchCsrfToken csrf_login_world)) = (Normal resp', w3)"
      "network w3 = [c1, c2]" "http_method c1 = GET" "url c1 = ''/auth/csrf''"
      "http_method c2 = POST" "url c2 = ''/auth/login''"
    using csrf_login_world_run by blast
  show ?thesis
    using login_network_final [OF run(1)] run(2-6) by simp
qed

end
